theory Spec2Isabelle
  imports Main "HOL-Library.Sublist"
begin

section \<open>Python text\<close>

text \<open>
  A Python \<open>str\<close> is a sequence of Unicode code points, and \<open>len\<close>, \<open>find\<close> and slicing
  count code points. A text is therefore a list of code points (natural numbers); \<open>lit\<close>
  reads an ASCII literal of the source.
\<close>

type_synonym pystr = "nat list"

definition lit :: "string \<Rightarrow> pystr" where
  "lit s = map of_char s"

text \<open>
  \<open>str.isspace\<close> for one code point: the characters of bidirectional class WS, B or S and
  of category Zs.
\<close>

definition isspace :: "nat \<Rightarrow> bool" where
  "isspace c \<longleftrightarrow>
     (9 \<le> c \<and> c \<le> 13) \<or> (28 \<le> c \<and> c \<le> 32) \<or> c = 133 \<or> c = 160 \<or> c = 5760 \<or>
     (8192 \<le> c \<and> c \<le> 8202) \<or> c = 8232 \<or> c = 8233 \<or> c = 8239 \<or> c = 8287 \<or> c = 12288"

text \<open>
  \<open>str.isalnum\<close> for one code point. On ASCII it holds of the digits and the letters;
  beyond ASCII it is a table of the Unicode database, which the functions below take as
  the parameter \<open>ucd\<close>.
\<close>

definition ascii_alnum :: "nat \<Rightarrow> bool" where
  "ascii_alnum c \<longleftrightarrow> (48 \<le> c \<and> c \<le> 57) \<or> (65 \<le> c \<and> c \<le> 90) \<or> (97 \<le> c \<and> c \<le> 122)"

definition isalnum :: "(nat \<Rightarrow> bool) \<Rightarrow> nat \<Rightarrow> bool" where
  "isalnum ucd c = (if c < 128 then ascii_alnum c else ucd c)"

text \<open>\<open>s.lstrip()\<close>, \<open>s.rstrip()\<close> and \<open>s.strip()\<close>.\<close>

definition lstrip :: "pystr \<Rightarrow> pystr" where
  "lstrip s = dropWhile isspace s"

definition rstrip :: "pystr \<Rightarrow> pystr" where
  "rstrip s = rev (dropWhile isspace (rev s))"

definition strip :: "pystr \<Rightarrow> pystr" where
  "strip s = rstrip (lstrip s)"

text \<open>
  \<open>s[a:b]\<close>: a negative bound counts from the end, both bounds are clamped to the text,
  and a slice whose upper bound is below its lower bound is empty. It never raises.
\<close>

definition slice_bound :: "int \<Rightarrow> nat \<Rightarrow> nat" where
  "slice_bound i n = (if i < 0 then nat (max 0 (i + int n)) else min (nat i) n)"

definition str_slice :: "'a list \<Rightarrow> int \<Rightarrow> int \<Rightarrow> 'a list" where
  "str_slice s a b =
     (let lo = slice_bound a (length s); hi = slice_bound b (length s)
      in take (hi - lo) (drop lo s))"

text \<open>
  \<open>s.find(sub)\<close> is the lowest index at which \<open>sub\<close> occurs in \<open>s\<close>, and \<open>-1\<close> when it does
  not occur; \<open>s.find(sub, start)\<close> searches from \<open>start\<close>; \<open>sub in s\<close> tells whether it occurs.
\<close>

fun find_idx :: "'a list \<Rightarrow> 'a list \<Rightarrow> nat option" where
  "find_idx sub [] = (if sub = [] then Some 0 else None)"
| "find_idx sub (x # xs) =
     (if prefix sub (x # xs) then Some 0 else map_option Suc (find_idx sub xs))"

definition str_find :: "'a list \<Rightarrow> 'a list \<Rightarrow> int" where
  "str_find s sub = (case find_idx sub s of None \<Rightarrow> - 1 | Some i \<Rightarrow> int i)"

definition str_find_from :: "'a list \<Rightarrow> 'a list \<Rightarrow> int \<Rightarrow> int" where
  "str_find_from s sub start =
     (let n = int (length s);
          st = (if start < 0 then max 0 (start + n) else start)
      in if n < st then - 1
         else (case find_idx sub (drop (nat st) s) of
                 None \<Rightarrow> - 1
               | Some i \<Rightarrow> st + int i))"

definition str_contains :: "'a list \<Rightarrow> 'a list \<Rightarrow> bool" where
  "str_contains sub s \<longleftrightarrow> find_idx sub s \<noteq> None"

text \<open>\<open>str(n)\<close> for a natural number: its decimal digits.\<close>

fun str_nat :: "nat \<Rightarrow> pystr" where
  "str_nat n = (if n < 10 then [48 + n] else str_nat (n div 10) @ [48 + n mod 10])"

section \<open>The output directory\<close>

text \<open>
  Every variant starts alike (\<open>main.py\<close>, \<open>researcherqwen.py\<close>, \<open>researcherkilo.py\<close>,
  and \<open>streamlit_app.py\<close> for the archive's name):
  \<^verbatim>\<open>safe_topic = "".join(c for c in topic if c.isalnum() or c in (' ', '-', '_')).rstrip()[:50]\<close>
\<close>

definition slug_char :: "(nat \<Rightarrow> bool) \<Rightarrow> nat \<Rightarrow> bool" where
  "slug_char ucd c \<longleftrightarrow> isalnum ucd c \<or> c = 32 \<or> c = 45 \<or> c = 95"

definition safe_topic :: "(nat \<Rightarrow> bool) \<Rightarrow> pystr \<Rightarrow> pystr" where
  "safe_topic ucd topic = str_slice (rstrip (filter (slug_char ucd) topic)) 0 50"

text \<open>
  \<open>datetime.now().strftime(...)\<close> reads the clock. A function runs each of its calls at
  most once, so the clock is a function from the number of the call to the text it returns.
  Call 0 is the stamp of the directory or archive name (format \<open>%Y%m%d_%H%M%S\<close>); the
  calls that print the time of generation (format \<open>%Y-%m-%d %H:%M:%S\<close>) are numbered
  from 1 in the order they are written in the source function.
\<close>

type_synonym clock = "nat \<Rightarrow> pystr"

section \<open>Section markers and the marker loop\<close>

text \<open>The header lines the saving functions look for in the generated text.\<close>

definition BLOG_POST :: pystr where
  "BLOG_POST = lit ''# BLOG POST''"

definition LINKEDIN_POSTS :: pystr where
  "LINKEDIN_POSTS = lit ''# LINKEDIN POSTS''"

definition TWITTER_POSTS :: pystr where
  "TWITTER_POSTS = lit ''# X/TWITTER POSTS''"

definition MIDJOURNEY_PROMPTS :: pystr where
  "MIDJOURNEY_PROMPTS = lit ''# MIDJOURNEY PROMPTS''"

text \<open>
  The loop of \<open>researcherqwen.py\<close> over the candidate end markers:
  \<^verbatim>\<open>
  for marker in end_markers:
      marker_pos = <position of marker>
      if marker_pos > start:
          end = marker_pos
          break
  \<close>
  \<open>pos\<close> is the search the loop body runs and \<open>dflt\<close> the value \<open>end\<close> has before the loop.
\<close>

fun scan_end_markers :: "(pystr \<Rightarrow> int) \<Rightarrow> int \<Rightarrow> int \<Rightarrow> pystr list \<Rightarrow> int" where
  "scan_end_markers pos start dflt [] = dflt"
| "scan_end_markers pos start dflt (marker # end_markers) =
     (let marker_pos = pos marker
      in if marker_pos > start then marker_pos
         else scan_end_markers pos start dflt end_markers)"

section \<open>\<open>researcherqwen.py\<close>: \<open>save_content_to_files\<close>\<close>

text \<open>
  The argument \<open>content_str\<close> is \<open>str(content)\<close>, the generated text. The blog section
  (lines 290 to 317):
\<close>

definition blog_start :: "pystr \<Rightarrow> int" where
  "blog_start content_str = str_find content_str BLOG_POST + int (length BLOG_POST)"

definition blog_end :: "pystr \<Rightarrow> int" where
  "blog_end content_str =
     scan_end_markers (str_find content_str) (blog_start content_str)
       (int (length content_str)) [LINKEDIN_POSTS, TWITTER_POSTS, MIDJOURNEY_PROMPTS]"

definition blog_content :: "pystr \<Rightarrow> pystr" where
  "blog_content content_str =
     strip (str_slice content_str (blog_start content_str) (blog_end content_str))"

definition blog_extracted :: "pystr \<Rightarrow> bool" where
  "blog_extracted content_str \<longleftrightarrow>
     str_contains BLOG_POST content_str \<and> length (blog_content content_str) > 100"

text \<open>The social media section (lines 322 to 356).\<close>

definition social_start :: "pystr \<Rightarrow> int" where
  "social_start content_str = str_find content_str LINKEDIN_POSTS"

definition social_end :: "pystr \<Rightarrow> int" where
  "social_end content_str =
     (let social_end =
            scan_end_markers (\<lambda>marker. str_find_from content_str marker (social_start content_str + 1))
              (social_start content_str) (int (length content_str))
              [TWITTER_POSTS, MIDJOURNEY_PROMPTS]
      in if str_contains TWITTER_POSTS content_str
         then (let twitter_start = str_find content_str TWITTER_POSTS
               in if twitter_start < social_end \<or> social_end = int (length content_str)
                  then (let midjourney_start = str_find content_str MIDJOURNEY_PROMPTS
                        in if midjourney_start > twitter_start then midjourney_start
                           else int (length content_str))
                  else social_end)
         else social_end)"

definition social_content :: "pystr \<Rightarrow> pystr" where
  "social_content content_str =
     strip (str_slice content_str (social_start content_str) (social_end content_str))"

definition social_extracted :: "pystr \<Rightarrow> bool" where
  "social_extracted content_str \<longleftrightarrow>
     str_contains LINKEDIN_POSTS content_str \<and> length (social_content content_str) > 50"

text \<open>The image prompt section (lines 361 to 373).\<close>

definition midjourney_start :: "pystr \<Rightarrow> int" where
  "midjourney_start content_str = str_find content_str MIDJOURNEY_PROMPTS"

definition midjourney_content :: "pystr \<Rightarrow> pystr" where
  "midjourney_content content_str =
     strip (str_slice content_str (midjourney_start content_str) (int (length content_str)))"

definition midjourney_extracted :: "pystr \<Rightarrow> bool" where
  "midjourney_extracted content_str \<longleftrightarrow>
     str_contains MIDJOURNEY_PROMPTS content_str \<and> length (midjourney_content content_str) > 30"

text \<open>The counter of the index file (lines 379 to 385).\<close>

definition files_created :: "pystr \<Rightarrow> nat" where
  "files_created content_str =
     1 + (if blog_extracted content_str then 1 else 0)
       + (if social_extracted content_str then 1 else 0)
       + (if midjourney_extracted content_str then 1 else 0)"

text \<open>The texts written, one definition for each file.\<close>

definition complete_technical_content_md :: "clock \<Rightarrow> pystr \<Rightarrow> pystr \<Rightarrow> pystr" where
  "complete_technical_content_md now topic content_str =
     lit ''# Technical Content Package: '' @ topic
       @ lit ''\<newline>\<newline>**Generated:** '' @ now 1
       @ lit ''\<newline>**Perspective:** Data Scientist Technical Blog\<newline>**Model:** DeepSeek R1 Distill Llama 70B\<newline>\<newline>---\<newline>\<newline>''
       @ content_str"

definition technical_blog_post_md :: "clock \<Rightarrow> pystr \<Rightarrow> pystr \<Rightarrow> pystr" where
  "technical_blog_post_md now topic content_str =
     lit ''# '' @ topic
       @ lit ''\<newline>\<newline>*Technical blog post from a data scientist's perspective*\<newline>*Generated: ''
       @ now 2 @ lit ''*\<newline>\<newline>'' @ blog_content content_str"

definition social_media_posts_md :: "clock \<Rightarrow> pystr \<Rightarrow> pystr \<Rightarrow> pystr" where
  "social_media_posts_md now topic content_str =
     lit ''# Social Media Content: '' @ topic @ lit ''\<newline>\<newline>*Generated: ''
       @ now 3 @ lit ''*\<newline>\<newline>'' @ social_content content_str"

definition midjourney_prompts_md :: "clock \<Rightarrow> pystr \<Rightarrow> pystr \<Rightarrow> pystr" where
  "midjourney_prompts_md now topic content_str =
     lit ''# MidJourney Prompts: '' @ topic @ lit ''\<newline>\<newline>*Generated: '' @ now 4
       @ lit ''*\<newline>\<newline>'' @ midjourney_content content_str"

definition qwen_README_writes :: "clock \<Rightarrow> pystr \<Rightarrow> pystr \<Rightarrow> pystr list" where
  "qwen_README_writes now topic content_str =
     [lit ''# Technical Content: '' @ topic @ lit ''\<newline>\<newline>'',
      lit ''**Generated:** '' @ now 5 @ lit ''\<newline>'',
      lit ''**Style:** Data Scientist Technical Perspective\<newline>'',
      lit ''**Success Rate:** '' @ str_nat (files_created content_str)
         @ lit ''/5 files created\<newline>\<newline>'',
      lit ''## '' @ [128193] @ lit '' Files:\<newline>\<newline>'',
      (if blog_extracted content_str
       then lit ''- '' @ [9989]
              @ lit '' `technical_blog_post.md` - **MAIN TECHNICAL BLOG** (1000-1500 words)\<newline>''
       else lit ''- '' @ [10060]
              @ lit '' `technical_blog_post.md` - Main technical blog (not extracted)\<newline>''),
      (if social_extracted content_str
       then lit ''- '' @ [9989] @ lit '' `social_media_posts.md` - LinkedIn & Twitter content\<newline>''
       else lit ''- '' @ [10060]
              @ lit '' `social_media_posts.md` - Social media content (not extracted)\<newline>''),
      (if midjourney_extracted content_str
       then lit ''- '' @ [9989] @ lit '' `midjourney_prompts.md` - MidJourney visual prompts\<newline>''
       else lit ''- '' @ [10060]
              @ lit '' `midjourney_prompts.md` - MidJourney prompts (not extracted)\<newline>''),
      lit ''- '' @ [9989]
         @ lit '' `complete_technical_content.md` - All content including social media\<newline>'',
      lit ''- '' @ [9989] @ lit '' `README.md` - This file\<newline>\<newline>'',
      lit ''## '' @ [128300] @ lit '' Content Features:\<newline>\<newline>'',
      [9989] @ lit '' Technical depth with practical implementation\<newline>'',
      [9989] @ lit '' Code examples and technical details\<newline>'',
      [9989] @ lit '' Personal insights from data science experience\<newline>'',
      [9989] @ lit '' Real-world applications and challenges\<newline>'',
      [9989] @ lit '' Technical social media content\<newline>'',
      [9989] @ lit '' MidJourney prompts for professional blog visuals\<newline>'']
     @ (if files_created content_str < 4
        then [lit ''\<newline>## '' @ [9888, 65039] @ lit '' Extraction Issues:\<newline>\<newline>'',
              lit ''Some content sections couldn't be extracted. Check `complete_technical_content.md` for the full output.\<newline>'',
              lit ''The content might be there but not properly formatted with the expected headers.\<newline>'']
        else [])"


text \<open>
  What a saving function leaves behind: the directory it returns, and the files it wrote
  there, in the order of the writes, each with its name inside the directory. What it
  prints is not modelled.
\<close>

record saved =
  output_dir :: pystr
  files :: "(pystr \<times> pystr) list"

definition qwen_save_content_to_files :: "(nat \<Rightarrow> bool) \<Rightarrow> clock \<Rightarrow> pystr \<Rightarrow> pystr \<Rightarrow> saved" where
  "qwen_save_content_to_files ucd now topic content_str =
     \<lparr> output_dir = lit ''technical_content/'' @ safe_topic ucd topic @ lit ''_'' @ now 0,
       files =
         [(lit ''complete_technical_content.md'',
           complete_technical_content_md now topic content_str)]
         @ (if blog_extracted content_str
            then [(lit ''technical_blog_post.md'',
                   technical_blog_post_md now topic content_str)]
            else [])
         @ (if social_extracted content_str
            then [(lit ''social_media_posts.md'',
                   social_media_posts_md now topic content_str)]
            else [])
         @ (if midjourney_extracted content_str
            then [(lit ''midjourney_prompts.md'',
                   midjourney_prompts_md now topic content_str)]
            else [])
         @ [(lit ''README.md'',
             concat (qwen_README_writes now topic content_str))] \<rparr>"

section \<open>\<open>main.py\<close>: \<open>save_content_to_files\<close>\<close>

text \<open>
  The blog section of \<open>main.py\<close> (lines 176 to 183): the end is the first occurrence of
  the LinkedIn header, else of the X/Twitter header, else the end of the text.
\<close>

definition main_blog_start :: "pystr \<Rightarrow> int" where
  "main_blog_start content_str = str_find content_str BLOG_POST + int (length BLOG_POST)"

definition main_blog_end :: "pystr \<Rightarrow> int" where
  "main_blog_end content_str =
     (let blog_end = str_find content_str LINKEDIN_POSTS;
          blog_end = (if blog_end = - 1 then str_find content_str TWITTER_POSTS else blog_end);
          blog_end = (if blog_end = - 1 then int (length content_str) else blog_end)
      in blog_end)"

definition main_blog_content :: "pystr \<Rightarrow> pystr" where
  "main_blog_content content_str =
     strip (str_slice content_str (main_blog_start content_str) (main_blog_end content_str))"

definition BLOG_POST_MEDIUM_md :: "clock \<Rightarrow> pystr \<Rightarrow> pystr \<Rightarrow> pystr" where
  "BLOG_POST_MEDIUM_md now topic content_str =
     lit ''# '' @ topic @ lit ''\<newline>\<newline>*Ready for Medium.com - Generated on: ''
       @ now 1 @ lit ''*\<newline>\<newline>''
     @ (if str_contains BLOG_POST content_str
        then main_blog_content content_str
        else [9888, 65039]
            @ lit '' Blog content extraction failed. Check complete_content.md for full output.\<newline>\<newline>''
            @ content_str)"

definition complete_content_md :: "clock \<Rightarrow> pystr \<Rightarrow> pystr \<Rightarrow> pystr" where
  "complete_content_md now topic content_str =
     lit ''# Complete Content Package: '' @ topic
       @ lit ''\<newline>\<newline>**Generated on:** '' @ now 2
       @ lit ''\<newline>\<newline>---\<newline>\<newline>'' @ content_str"

fun image_entries :: "nat \<Rightarrow> pystr list \<Rightarrow> pystr" where
  "image_entries i [] = []"
| "image_entries i (img_result # images) =
     lit ''Image '' @ str_nat i @ lit '':\<newline>'' @ img_result
       @ lit ''\<newline>\<newline>''
       @ image_entries (Suc i) images"

definition images_generated_txt :: "pystr \<Rightarrow> pystr list \<Rightarrow> pystr" where
  "images_generated_txt topic images =
     lit ''GENERATED IMAGES - '' @ topic
       @ lit ''\<newline>==================================================\<newline>\<newline>''
       @ image_entries 1 images"

definition main_README_md :: "clock \<Rightarrow> pystr \<Rightarrow> pystr" where
  "main_README_md now topic =
     lit ''# Content Package: '' @ topic @ lit ''\<newline>\<newline>Generated on: '' @ now 3
       @ lit ''\<newline>\<newline>## '' @ [128193]
       @ lit '' Files:\<newline>\<newline>- `01_BLOG_POST_MEDIUM.md` - **MAIN BLOG POST** (800-1200 words for Medium.com)\<newline>- `complete_content.md` - All content in one file\<newline>- `images_generated.txt` - Image generation results\<newline>- `generated_images/` - Actual image files\<newline>\<newline>## ''
       @ [127919] @ lit '' Priority Content:\<newline>\<newline>'' @ [128293]
       @ lit '' **MAIN DELIVERABLE**: `01_BLOG_POST_MEDIUM.md`\<newline>\<newline>'' @ [128241]
       @ lit '' **Social Media**: Check `complete_content.md` for LinkedIn & Twitter posts\<newline>\<newline>## ''
       @ [128202] @ lit '' What's included:\<newline>\<newline>'' @ [9989]
       @ lit '' Comprehensive blog post (800-1200 words) - READY FOR MEDIUM\<newline>''
       @ [9989] @ lit '' LinkedIn posts (English + Turkish)\<newline>'' @ [9989]
       @ lit '' X/Twitter posts (English + Turkish)\<newline>'' @ [9989]
       @ lit '' AI-generated images\<newline>'' @ [9989]
       @ lit '' Research-backed content with current data\<newline>''"


definition main_save_content_to_files ::
  "(nat \<Rightarrow> bool) \<Rightarrow> clock \<Rightarrow> pystr \<Rightarrow> pystr \<Rightarrow> pystr list \<Rightarrow> saved" where
  "main_save_content_to_files ucd now topic content_str images =
     \<lparr> output_dir = lit ''outputs/'' @ safe_topic ucd topic @ lit ''_'' @ now 0,
       files =
         [(lit ''01_BLOG_POST_MEDIUM.md'', BLOG_POST_MEDIUM_md now topic content_str),
          (lit ''complete_content.md'', complete_content_md now topic content_str),
          (lit ''images_generated.txt'', images_generated_txt topic images),
          (lit ''README.md'', main_README_md now topic)] \<rparr>"

section \<open>\<open>researcherkilo.py\<close>: \<open>save_content_to_files\<close>\<close>

text \<open>
  The three results are the texts \<open>str(research_result)\<close>, \<open>str(content_result)\<close> and
  \<open>str(social_result)\<close>; nothing is extracted, each is written whole.
\<close>

definition research_findings_md :: "clock \<Rightarrow> pystr \<Rightarrow> pystr \<Rightarrow> pystr" where
  "research_findings_md now topic research_result =
     lit ''# Research Findings: '' @ topic
       @ lit ''\<newline>\<newline>*Generated by Research Agent (Qwen 3-32B) on: '' @ now 1
       @ lit ''*\<newline>\<newline>'' @ research_result"

definition kilo_technical_blog_post_md :: "clock \<Rightarrow> pystr \<Rightarrow> pystr \<Rightarrow> pystr" where
  "kilo_technical_blog_post_md now topic content_result =
     lit ''# '' @ topic
       @ lit ''\<newline>\<newline>*Generated by Content Writer Agent (DeepSeek R1) on: ''
       @ now 2 @ lit ''*\<newline>\<newline>'' @ content_result"

definition social_media_content_md :: "clock \<Rightarrow> pystr \<Rightarrow> pystr \<Rightarrow> pystr" where
  "social_media_content_md now topic social_result =
     lit ''# Social Media Content: '' @ topic
       @ lit ''\<newline>\<newline>*Generated by Social Media Specialist (DeepSeek R1) on: ''
       @ now 3 @ lit ''*\<newline>\<newline>'' @ social_result"

definition complete_multi_agent_content_md :: "clock \<Rightarrow> pystr \<Rightarrow> pystr \<Rightarrow> pystr \<Rightarrow> pystr \<Rightarrow> pystr" where
  "complete_multi_agent_content_md now topic research_result content_result social_result =
     lit ''# Complete Multi-Agent Content Package: '' @ topic
       @ lit ''\<newline>\<newline>**Generated:** '' @ now 4
       @ lit ''\<newline>**Architecture:** Multi-Agent System\<newline>**Research Model:** Qwen 3-32B\<newline>**Content Model:** DeepSeek R1 Distill Llama 70B\<newline>**Social Model:** DeepSeek R1 Distill Llama 70B\<newline>\<newline>---\<newline>\<newline># RESEARCH FINDINGS\<newline>\<newline>''
       @ research_result
       @ lit ''\<newline>\<newline>---\<newline>\<newline># TECHNICAL BLOG POST\<newline>\<newline>''
       @ content_result
       @ lit ''\<newline>\<newline>---\<newline>\<newline># SOCIAL MEDIA CONTENT\<newline>\<newline>''
       @ social_result"

definition kilo_README_md :: "clock \<Rightarrow> pystr \<Rightarrow> pystr" where
  "kilo_README_md now topic =
     lit ''# Multi-Agent Content Package: '' @ topic
       @ lit ''\<newline>\<newline>**Generated:** '' @ now 5
       @ lit ''\<newline>**Architecture:** Multi-Agent System with Specialized LLMs\<newline>\<newline>## ''
       @ [129302]
       @ lit '' Agent Architecture:\<newline>\<newline>- **Research Agent**: Qwen 3-32B (Efficient research and data gathering)\<newline>- **Content Writer**: DeepSeek R1 Distill Llama 70B (Creative technical writing)\<newline>- **Social Media Specialist**: DeepSeek R1 Distill Llama 70B (Engaging social content)\<newline>\<newline>## ''
       @ [128193] @ lit '' Files Generated:\<newline>\<newline>- '' @ [9989]
       @ lit '' `01_research_findings.md` - Comprehensive research by Research Agent\<newline>- ''
       @ [9989]
       @ lit '' `02_technical_blog_post.md` - **MAIN TECHNICAL BLOG** (1000-1500 words)\<newline>- ''
       @ [9989]
       @ lit '' `03_social_media_content.md` - LinkedIn & Twitter content + MidJourney prompts\<newline>- ''
       @ [9989]
       @ lit '' `complete_multi_agent_content.md` - All content in one file\<newline>- ''
       @ [9989] @ lit '' `README.md` - This file\<newline>\<newline>## '' @ [128300]
       @ lit '' Multi-Agent Workflow:\<newline>\<newline>1. **Research Phase**: Research Agent gathers academic papers, industry data, and technical examples\<newline>2. **Content Creation**: Content Writer transforms research into comprehensive blog post\<newline>3. **Social Adaptation**: Social Media Specialist creates platform-specific content\<newline>\<newline>## ''
       @ [10024] @ lit '' Content Features:\<newline>\<newline>'' @ [9989]
       @ lit '' **Research-Backed**: Academic sources + industry data\<newline>'' @ [9989]
       @ lit '' **Technical Depth**: Code examples and practical implementation\<newline>''
       @ [9989] @ lit '' **Multi-Platform**: Blog, LinkedIn, Twitter content\<newline>''
       @ [9989] @ lit '' **Bilingual**: English and Turkish social media content\<newline>''
       @ [9989]
       @ lit '' **Visual Ready**: MidJourney prompts for professional visuals\<newline>''
       @ [9989]
       @ lit '' **Specialized LLMs**: Optimized models for each task\<newline>\<newline>## ''
       @ [127919]
       @ lit '' Usage:\<newline>\<newline>- **For Blog**: Use `02_technical_blog_post.md`\<newline>- **For Social Media**: Use `03_social_media_content.md`\<newline>- **For Research**: Reference `01_research_findings.md`\<newline>''"

definition kilo_save_content_to_files ::
  "(nat \<Rightarrow> bool) \<Rightarrow> clock \<Rightarrow> pystr \<Rightarrow> pystr \<Rightarrow> pystr \<Rightarrow> pystr \<Rightarrow> saved" where
  "kilo_save_content_to_files ucd now topic research_result content_result social_result =
     \<lparr> output_dir = lit ''multi_agent_content/'' @ safe_topic ucd topic @ lit ''_'' @ now 0,
       files =
         [(lit ''01_research_findings.md'', research_findings_md now topic research_result),
          (lit ''02_technical_blog_post.md'', kilo_technical_blog_post_md now topic content_result),
          (lit ''03_social_media_content.md'', social_media_content_md now topic social_result),
          (lit ''complete_multi_agent_content.md'',
           complete_multi_agent_content_md now topic research_result content_result social_result),
          (lit ''README.md'', kilo_README_md now topic)] \<rparr>"

section \<open>\<open>streamlit_app.py\<close>: \<open>create_download_zip\<close>\<close>

text \<open>
  The archive is modelled by its entries, in the order of the \<open>writestr\<close> calls: the name
  and the text of each. The arguments \<open>research\<close>, \<open>content\<close> and \<open>social\<close> are
  \<open>str(result['research'])\<close>, \<open>str(result['content'])\<close> and \<open>str(result['social'])\<close>; the
  function does not use its arguments \<open>timestamp\<close> (call 0 of the clock, made by the
  caller) and \<open>safe_topic\<close>.
\<close>

definition zip_research_findings_md :: "clock \<Rightarrow> pystr \<Rightarrow> pystr \<Rightarrow> pystr" where
  "zip_research_findings_md now topic research =
     lit ''# Research Findings: '' @ topic @ lit ''\<newline>\<newline>*Generated: '' @ now 1
       @ lit ''*\<newline>\<newline>'' @ research"

definition zip_technical_blog_post_md :: "clock \<Rightarrow> pystr \<Rightarrow> pystr \<Rightarrow> pystr" where
  "zip_technical_blog_post_md now topic content =
     lit ''# '' @ topic @ lit ''\<newline>\<newline>*Generated: '' @ now 2
       @ lit ''*\<newline>\<newline>'' @ content"

definition zip_social_media_content_md :: "clock \<Rightarrow> pystr \<Rightarrow> pystr \<Rightarrow> pystr" where
  "zip_social_media_content_md now topic social =
     lit ''# Social Media Content: '' @ topic @ lit ''\<newline>\<newline>*Generated: ''
       @ now 3 @ lit ''*\<newline>\<newline>'' @ social"

definition complete_content_package_md :: "clock \<Rightarrow> pystr \<Rightarrow> pystr \<Rightarrow> pystr \<Rightarrow> pystr \<Rightarrow> pystr" where
  "complete_content_package_md now topic research content social =
     lit ''# Complete Multi-Agent Content Package: '' @ topic
       @ lit ''\<newline>\<newline>**Generated:** '' @ now 4
       @ lit ''\<newline>**Architecture:** Multi-Agent System\<newline>**Research Model:** Qwen/Qwen3-32B\<newline>**Content Model:** DeepSeek R1 Distill Llama 70B\<newline>**Social Model:** DeepSeek R1 Distill Llama 70B\<newline>\<newline>---\<newline>\<newline># RESEARCH FINDINGS\<newline>\<newline>''
       @ research
       @ lit ''\<newline>\<newline>---\<newline>\<newline># TECHNICAL BLOG POST\<newline>\<newline>''
       @ content
       @ lit ''\<newline>\<newline>---\<newline>\<newline># SOCIAL MEDIA CONTENT\<newline>\<newline>''
       @ social @ lit ''\<newline>''"

definition zip_README_md :: "clock \<Rightarrow> pystr \<Rightarrow> pystr" where
  "zip_README_md now topic =
     lit ''# Content Package: '' @ topic @ lit ''\<newline>\<newline>Generated: '' @ now 5
       @ lit ''\<newline>\<newline>## Files:\<newline>- `01_research_findings.md` - Research findings\<newline>- `02_technical_blog_post.md` - Main blog post\<newline>- `03_social_media_content.md` - Social media content\<newline>- `complete_content_package.md` - Everything combined\<newline>\<newline>## Generated by:\<newline>AI-Powered Multi-Agent Content Creator\<newline>https://github.com/elandil2/blog-poster\<newline>''"

definition create_download_zip ::
  "clock \<Rightarrow> pystr \<Rightarrow> pystr \<Rightarrow> pystr \<Rightarrow> pystr \<Rightarrow> (pystr \<times> pystr) list" where
  "create_download_zip now topic research content social =
     [(lit ''01_research_findings.md'', zip_research_findings_md now topic research),
      (lit ''02_technical_blog_post.md'', zip_technical_blog_post_md now topic content),
      (lit ''03_social_media_content.md'', zip_social_media_content_md now topic social),
      (lit ''complete_content_package.md'',
       complete_content_package_md now topic research content social),
      (lit ''README.md'', zip_README_md now topic)]"

section \<open>Sample arguments\<close>

text \<open>
  For evaluating the functions on ASCII texts: a Unicode table with no alphanumeric
  character beyond ASCII, and a clock that stands still.
\<close>

definition ascii_only :: "nat \<Rightarrow> bool" where
  "ascii_only c = False"

definition still_clock :: clock where
  "still_clock k = (if k = 0 then lit ''20250101_120000'' else lit ''2025-01-01 12:00:00'')"

text \<open>
  A text in which all three sections of \<open>researcherqwen.py\<close> are long enough: a blog
  body of 101 characters, a LinkedIn body of 60 and image prompts of 40.
\<close>

definition all_sections_text :: pystr where
  "all_sections_text =
     BLOG_POST @ replicate 101 97 @ LINKEDIN_POSTS @ replicate 60 98
       @ MIDJOURNEY_PROMPTS @ replicate 40 99"

section \<open>Facts about the text operations\<close>

lemma slice_bound_nonneg: "0 \<le> i \<Longrightarrow> slice_bound i n = min (nat i) n"
  by (simp add: slice_bound_def)

lemma str_slice_nonneg:
  "0 \<le> a \<Longrightarrow> 0 \<le> b \<Longrightarrow>
   str_slice s a b = take (min (nat b) (length s) - min (nat a) (length s)) (drop (min (nat a) (length s)) s)"
  by (simp add: str_slice_def slice_bound_nonneg Let_def)

lemma take_min_length: "take (min n (length s)) s = take n s"
  by (cases "n \<le> length s") (simp_all add: min_def)

lemma str_slice_prefix: "str_slice s 0 (int n) = take n s"
  by (simp add: str_slice_def slice_bound_def Let_def take_min_length)

lemma set_rstrip: "set (rstrip s) \<subseteq> set s"
proof -
  have "set (dropWhile isspace (rev s)) \<subseteq> set (rev s)"
    by (rule set_dropWhileD[THEN subsetI])
  then show ?thesis by (simp add: rstrip_def)
qed

section \<open>The slug\<close>

lemma set_str_slice: "set (str_slice s a b) \<subseteq> set s"
proof -
  have "set (take n (drop m s)) \<subseteq> set s" for n m
    by (meson set_take_subset set_drop_subset subset_trans)
  then show ?thesis by (simp add: str_slice_def Let_def)
qed

lemma length_str_slice_prefix: "length (str_slice s 0 (int n)) \<le> n"
  by (simp add: str_slice_prefix)

text \<open>
  Claim C8. The slug is a function of the topic alone (it reads no clock and no state, so
  two calls on one topic give one slug); each of its characters is alphanumeric, a space
  (32), a hyphen (45) or an underscore (95); and it has at most 50 characters.
\<close>

theorem safe_topic_chars_and_length:
  "(\<forall>c \<in> set (safe_topic ucd topic). isalnum ucd c \<or> c = 32 \<or> c = 45 \<or> c = 95) \<and>
   length (safe_topic ucd topic) \<le> 50"
proof -
  have "set (safe_topic ucd topic) \<subseteq> set (filter (slug_char ucd) topic)"
    unfolding safe_topic_def by (meson set_str_slice set_rstrip subset_trans)
  then have "\<forall>c \<in> set (safe_topic ucd topic). slug_char ucd c"
    by auto
  moreover have "length (safe_topic ucd topic) \<le> 50"
    unfolding safe_topic_def using length_str_slice_prefix[of _ 50] by simp
  ultimately show ?thesis
    by (simp add: slug_char_def)
qed

theorem safe_topic_chars_and_length_witness:
  "safe_topic ascii_only (lit ''Agentic AI: Workflows!'') = lit ''Agentic AI Workflows'' \<and>
   65 \<in> set (safe_topic ascii_only (lit ''Agentic AI: Workflows!'')) \<and>
   (isalnum ascii_only 65 \<or> (65::nat) = 32 \<or> (65::nat) = 45 \<or> (65::nat) = 95) \<and>
   length (safe_topic ascii_only (lit ''Agentic AI: Workflows!'')) \<le> 50"
proof -
  have eq: "safe_topic ascii_only (lit ''Agentic AI: Workflows!'') = lit ''Agentic AI Workflows''"
    by (simp add: safe_topic_def str_slice_prefix[of _ 50, simplified] rstrip_def lit_def
        slug_char_def isalnum_def ascii_alnum_def isspace_def ascii_only_def)
  have mem: "65 \<in> set (safe_topic ascii_only (lit ''Agentic AI: Workflows!''))"
    unfolding eq by (simp add: lit_def)
  from safe_topic_chars_and_length[of ascii_only "lit ''Agentic AI: Workflows!''"] mem
  have "isalnum ascii_only 65 \<or> (65::nat) = 32 \<or> (65::nat) = 45 \<or> (65::nat) = 95"
    and "length (safe_topic ascii_only (lit ''Agentic AI: Workflows!'')) \<le> 50"
    by blast+
  with eq mem show ?thesis by blast
qed

section \<open>Facts about searching\<close>

lemma find_idx_SomeD:
  "find_idx sub s = Some i \<Longrightarrow> i \<le> length s \<and> prefix sub (drop i s)"
proof (induction s arbitrary: i)
  case Nil
  then show ?case by (simp split: if_splits)
next
  case (Cons x xs)
  show ?case
  proof (cases "prefix sub (x # xs)")
    case True
    with Cons.prems show ?thesis by simp
  next
    case False
    with Cons.prems obtain j where j: "find_idx sub xs = Some j" "i = Suc j"
      by auto
    from Cons.IH[OF j(1)] j(2) show ?thesis by simp
  qed
qed

lemma find_idx_least:
  "find_idx sub s = Some i \<Longrightarrow> j < i \<Longrightarrow> \<not> prefix sub (drop j s)"
proof (induction s arbitrary: i j)
  case Nil
  then show ?case by (simp split: if_splits)
next
  case (Cons x xs)
  show ?case
  proof (cases "prefix sub (x # xs)")
    case True
    with Cons.prems show ?thesis by simp
  next
    case False
    with Cons.prems obtain k where k: "find_idx sub xs = Some k" "i = Suc k"
      by auto
    show ?thesis
    proof (cases j)
      case 0
      with False show ?thesis by simp
    next
      case (Suc j')
      with Cons.prems(2) k(2) have "j' < k" by simp
      from Cons.IH[OF k(1) this] Suc show ?thesis by simp
    qed
  qed
qed

lemma find_idx_NoneD:
  "find_idx sub s = None \<Longrightarrow> j \<le> length s \<Longrightarrow> \<not> prefix sub (drop j s)"
proof (induction s arbitrary: j)
  case Nil
  then show ?case by (simp split: if_splits)
next
  case (Cons x xs)
  from Cons.prems(1) have np: "\<not> prefix sub (x # xs)" and n: "find_idx sub xs = None"
    by (auto split: if_splits)
  show ?case
  proof (cases j)
    case 0
    with np show ?thesis by simp
  next
    case (Suc j')
    with Cons.prems(2) have "j' \<le> length xs" by simp
    from Cons.IH[OF n this] Suc show ?thesis by simp
  qed
qed

lemma find_idx_occurrence:
  "prefix sub (drop j s) \<Longrightarrow> j \<le> length s \<Longrightarrow> \<exists>i. find_idx sub s = Some i \<and> i \<le> j"
proof (cases "find_idx sub s")
  case None
  assume "prefix sub (drop j s)" "j \<le> length s"
  with find_idx_NoneD[OF None] show ?thesis by blast
next
  case (Some i)
  assume p: "prefix sub (drop j s)"
  have "i \<le> j"
  proof (rule ccontr)
    assume "\<not> i \<le> j"
    then have "j < i" by simp
    from find_idx_least[OF Some this] p show False by simp
  qed
  with Some show ?thesis by simp
qed

lemma find_idx_split:
  assumes "find_idx sub s = Some i"
  shows "\<exists>post. drop i s = sub @ post"
  using find_idx_SomeD[OF assms] by (auto simp: prefix_def)

lemma find_idx_bound:
  assumes "find_idx sub s = Some i"
  shows "i + length sub \<le> length s"
proof -
  from find_idx_split[OF assms] obtain post where d: "drop i s = sub @ post"
    by blast
  have "length (drop i s) = length s - i" by simp
  with d have "length sub + length post = length s - i" by simp
  moreover from find_idx_SomeD[OF assms] have "i \<le> length s" by simp
  ultimately show ?thesis by linarith
qed

lemma str_find_range: "- 1 \<le> str_find s sub \<and> str_find s sub \<le> int (length s)"
  using find_idx_SomeD[of sub s]
  by (auto simp: str_find_def split: option.splits)

lemma str_contains_find: "str_contains sub s \<longleftrightarrow> 0 \<le> str_find s sub"
  by (auto simp: str_contains_def str_find_def split: option.splits)

lemma scan_end_markers_find:
  "scan_end_markers pos start dflt ms =
     (case List.find (\<lambda>m. start < pos m) ms of None \<Rightarrow> dflt | Some m \<Rightarrow> pos m)"
  by (induction ms) (simp_all add: Let_def)

lemma scan_end_markers_cases:
  "scan_end_markers pos start dflt ms = dflt \<or>
   (\<exists>m \<in> set ms. scan_end_markers pos start dflt ms = pos m \<and> start < pos m)"
  by (induction ms) (auto simp: Let_def)

section \<open>The markers as code points\<close>

lemma marker_codes:
  "BLOG_POST = [35, 32, 66, 76, 79, 71, 32, 80, 79, 83, 84]"
  "LINKEDIN_POSTS = [35, 32, 76, 73, 78, 75, 69, 68, 73, 78, 32, 80, 79, 83, 84, 83]"
  "TWITTER_POSTS = [35, 32, 88, 47, 84, 87, 73, 84, 84, 69, 82, 32, 80, 79, 83, 84, 83]"
  "MIDJOURNEY_PROMPTS = [35, 32, 77, 73, 68, 74, 79, 85, 82, 78, 69, 89, 32, 80, 82, 79, 77, 80, 84, 83]"
  by (simp_all add: BLOG_POST_def LINKEDIN_POSTS_def TWITTER_POSTS_def MIDJOURNEY_PROMPTS_def lit_def)

lemma marker_lengths:
  "length BLOG_POST = 11" "length LINKEDIN_POSTS = 16" "length TWITTER_POSTS = 17"
  "length MIDJOURNEY_PROMPTS = 20"
  by (simp_all add: marker_codes)

section \<open>Where the blog section ends\<close>

text \<open>
  Claim C1, as the code has it. The blog section of \<open>researcherqwen.py\<close> ends at the first
  candidate, in the order LinkedIn, X/Twitter, MidJourney, whose first occurrence in the
  text lies strictly after the start position, whether or not another candidate occurs
  nearer; when no candidate's first occurrence lies after the start position, the section
  runs to the end of the text.
\<close>

theorem blog_end_first_in_priority_order:
  "blog_end s =
     (if blog_start s < str_find s LINKEDIN_POSTS then str_find s LINKEDIN_POSTS
      else if blog_start s < str_find s TWITTER_POSTS then str_find s TWITTER_POSTS
      else if blog_start s < str_find s MIDJOURNEY_PROMPTS then str_find s MIDJOURNEY_PROMPTS
      else int (length s))"
  by (simp add: blog_end_def Let_def)

text \<open>
  The claim as the specification states it (the nearest end marker ends the section) fails:
  in the text below the X/Twitter header (at 14) and the LinkedIn header (at 34) both lie
  after the start position 11, and the section ends at 34, so the X/Twitter header is part
  of the blog content.
\<close>

theorem blog_end_not_nearest:
  "blog_start (lit ''# BLOG POST a # X/TWITTER POSTS b # LINKEDIN POSTS c'') = 11 \<and>
   str_find (lit ''# BLOG POST a # X/TWITTER POSTS b # LINKEDIN POSTS c'') TWITTER_POSTS = 14 \<and>
   str_find (lit ''# BLOG POST a # X/TWITTER POSTS b # LINKEDIN POSTS c'') LINKEDIN_POSTS = 34 \<and>
   blog_end (lit ''# BLOG POST a # X/TWITTER POSTS b # LINKEDIN POSTS c'') = 34 \<and>
   blog_content (lit ''# BLOG POST a # X/TWITTER POSTS b # LINKEDIN POSTS c'') =
     lit ''a # X/TWITTER POSTS b''"
proof -
  define c where "c = lit ''# BLOG POST a # X/TWITTER POSTS b # LINKEDIN POSTS c''"
  have c: "c = [35, 32, 66, 76, 79, 71, 32, 80, 79, 83, 84, 32, 97, 32, 35, 32, 88, 47, 84, 87, 73, 84, 84, 69, 82, 32, 80, 79, 83, 84, 83, 32, 98, 32, 35, 32, 76, 73, 78, 75, 69, 68, 73, 78, 32, 80, 79, 83, 84, 83, 32, 99]"
    by (simp add: c_def lit_def)
  have f: "str_find c BLOG_POST = 0" "str_find c TWITTER_POSTS = 14" "str_find c LINKEDIN_POSTS = 34"
    by (simp_all add: c str_find_def marker_codes)
  have s: "blog_start c = 11" by (simp add: blog_start_def f marker_lengths)
  have e: "blog_end c = 34" by (simp add: blog_end_def Let_def s f)
  have sl: "str_slice c 11 34 = [32, 97, 32, 35, 32, 88, 47, 84, 87, 73, 84, 84, 69, 82, 32, 80, 79, 83, 84, 83, 32, 98, 32]"
    by (simp add: str_slice_nonneg c)
  have "blog_content c = strip (str_slice c 11 34)"
    unfolding blog_content_def s e ..
  also have "\<dots> = lit ''a # X/TWITTER POSTS b''"
    unfolding sl by (simp add: strip_def lstrip_def rstrip_def isspace_def lit_def)
  finally have bc: "blog_content c = lit ''a # X/TWITTER POSTS b''" .
  with f s e bc show ?thesis unfolding c_def by simp
qed

section \<open>Markers that come before the section\<close>

text \<open>
  In \<open>researcherqwen.py\<close> the test \<open>marker_pos > blog_start\<close> keeps an end marker that
  comes before the blog header from ending the section: the slice never runs backwards, and
  it ends at the end of the text or at a marker found after the start.
\<close>

lemma blog_start_le_length:
  assumes "str_contains BLOG_POST s"
  shows "0 \<le> blog_start s \<and> blog_start s \<le> int (length s)"
proof -
  from assms obtain i where i: "find_idx BLOG_POST s = Some i"
    by (auto simp: str_contains_def)
  from find_idx_bound[OF i] show ?thesis
    by (simp add: blog_start_def str_find_def i)
qed

lemma blog_end_after_start:
  assumes "str_contains BLOG_POST s"
  shows "blog_start s \<le> blog_end s \<and> blog_end s \<le> int (length s) \<and>
         (blog_end s = int (length s) \<or>
          (\<exists>m \<in> set [LINKEDIN_POSTS, TWITTER_POSTS, MIDJOURNEY_PROMPTS].
             blog_end s = str_find s m \<and> blog_start s < str_find s m))"
proof -
  from scan_end_markers_cases[of "str_find s" "blog_start s" "int (length s)"
      "[LINKEDIN_POSTS, TWITTER_POSTS, MIDJOURNEY_PROMPTS]"]
  consider (dflt) "blog_end s = int (length s)"
    | (marker) m where "m \<in> set [LINKEDIN_POSTS, TWITTER_POSTS, MIDJOURNEY_PROMPTS]"
        "blog_end s = str_find s m" "blog_start s < str_find s m"
    unfolding blog_end_def by blast
  then show ?thesis
  proof cases
    case dflt
    with blog_start_le_length[OF assms] show ?thesis by simp
  next
    case marker
    with str_find_range[of s m] show ?thesis by auto
  qed
qed

lemma main_blog_end_cases:
  "main_blog_end s =
     (if str_find s LINKEDIN_POSTS \<noteq> - 1 then str_find s LINKEDIN_POSTS
      else if str_find s TWITTER_POSTS \<noteq> - 1 then str_find s TWITTER_POSTS
      else int (length s))"
  by (simp add: main_blog_end_def Let_def)

text \<open>
  Claim C2. An end marker whose first occurrence comes before the section's own start
  marker must not end the section. \<open>researcherqwen.py\<close> has the test for it
  (\<open>blog_end_after_start\<close>); \<open>main.py\<close> takes the first occurrence of the LinkedIn header
  wherever it is. On the out-of-order text of the specification \<open>main.py\<close> slices from 30 to
  0 and writes an empty blog section, where \<open>researcherqwen.py\<close> runs to the end of the
  text.
\<close>

theorem main_blog_content_out_of_order:
  "main_blog_start (lit ''# LINKEDIN POSTS\<newline>X\<newline># BLOG POST\<newline>Y (long enough)...\<newline>'') = 30 \<and>
   main_blog_end (lit ''# LINKEDIN POSTS\<newline>X\<newline># BLOG POST\<newline>Y (long enough)...\<newline>'') = 0 \<and>
   main_blog_content (lit ''# LINKEDIN POSTS\<newline>X\<newline># BLOG POST\<newline>Y (long enough)...\<newline>'') = [] \<and>
   blog_content (lit ''# LINKEDIN POSTS\<newline>X\<newline># BLOG POST\<newline>Y (long enough)...\<newline>'') =
     lit ''Y (long enough)...''"
proof -
  define c where "c = lit ''# LINKEDIN POSTS\<newline>X\<newline># BLOG POST\<newline>Y (long enough)...\<newline>''"
  have c: "c = [35, 32, 76, 73, 78, 75, 69, 68, 73, 78, 32, 80, 79, 83, 84, 83, 10, 88, 10,
                35, 32, 66, 76, 79, 71, 32, 80, 79, 83, 84, 10,
                89, 32, 40, 108, 111, 110, 103, 32, 101, 110, 111, 117, 103, 104, 41, 46, 46, 46, 10]"
    by (simp add: c_def lit_def)
  have f: "str_find c BLOG_POST = 19" "str_find c LINKEDIN_POSTS = 0"
    "str_find c TWITTER_POSTS = - 1" "str_find c MIDJOURNEY_PROMPTS = - 1"
    by (simp_all add: c str_find_def marker_codes)
  have len: "length c = 50" by (simp add: c)
  have ms: "main_blog_start c = 30" by (simp add: main_blog_start_def f marker_lengths)
  have me: "main_blog_end c = 0" by (simp add: main_blog_end_def f Let_def)
  have "main_blog_content c = strip (str_slice c 30 0)"
    unfolding main_blog_content_def ms me ..
  also have "\<dots> = []"
    by (simp add: str_slice_nonneg strip_def lstrip_def rstrip_def)
  finally have mc: "main_blog_content c = []" .
  have s: "blog_start c = 30" by (simp add: blog_start_def f marker_lengths)
  have e: "blog_end c = 50" by (simp add: blog_end_def Let_def s f len)
  have sl: "str_slice c 30 50 = [10, 89, 32, 40, 108, 111, 110, 103, 32, 101, 110, 111, 117, 103, 104, 41, 46, 46, 46, 10]"
    by (simp add: str_slice_nonneg c)
  have "blog_content c = strip (str_slice c 30 50)"
    unfolding blog_content_def s e ..
  also have "\<dots> = lit ''Y (long enough)...''"
    unfolding sl by (simp add: strip_def lstrip_def rstrip_def isspace_def lit_def)
  finally have bc: "blog_content c = lit ''Y (long enough)...''" .
  from ms me mc bc show ?thesis unfolding c_def by simp
qed

section \<open>Facts about trimming and slicing\<close>

lemma find_idx_self_prefix: "find_idx sub (sub @ t) = Some 0"
proof (cases "sub @ t")
  case Nil
  then show ?thesis by simp
next
  case (Cons x xs)
  have "prefix sub (sub @ t)" by simp
  with Cons show ?thesis by simp
qed

lemma find_idx_None_no_head: "x \<notin> set s \<Longrightarrow> find_idx (x # sub') s = None"
  by (induction s) simp_all

lemma lstrip_id: "s \<noteq> [] \<Longrightarrow> \<not> isspace (hd s) \<Longrightarrow> lstrip s = s"
  by (cases s) (simp_all add: lstrip_def)

lemma rstrip_id: "s \<noteq> [] \<Longrightarrow> \<not> isspace (last s) \<Longrightarrow> rstrip s = s"
proof -
  assume a: "s \<noteq> []" "\<not> isspace (last s)"
  then have "rev s \<noteq> []" "\<not> isspace (hd (rev s))"
    by (simp_all add: hd_rev)
  then have "dropWhile isspace (rev s) = rev s"
    by (cases "rev s") simp_all
  then show ?thesis by (simp add: rstrip_def)
qed

lemma strip_id: "s \<noteq> [] \<Longrightarrow> \<not> isspace (hd s) \<Longrightarrow> \<not> isspace (last s) \<Longrightarrow> strip s = s"
  by (simp add: strip_def lstrip_id rstrip_id)

lemma str_slice_suffix: "str_slice (a @ b) (int (length a)) (int (length a + length b)) = b"
  by (simp add: str_slice_def slice_bound_def Let_def)

section \<open>The files of \<open>researcherqwen.py\<close>\<close>

lemma qwen_names_neq:
  "lit ''complete_technical_content.md'' \<noteq> lit ''technical_blog_post.md''"
  "lit ''complete_technical_content.md'' \<noteq> lit ''social_media_posts.md''"
  "lit ''complete_technical_content.md'' \<noteq> lit ''midjourney_prompts.md''"
  "lit ''complete_technical_content.md'' \<noteq> lit ''README.md''"
  "lit ''technical_blog_post.md'' \<noteq> lit ''complete_technical_content.md''"
  "lit ''technical_blog_post.md'' \<noteq> lit ''social_media_posts.md''"
  "lit ''technical_blog_post.md'' \<noteq> lit ''midjourney_prompts.md''"
  "lit ''technical_blog_post.md'' \<noteq> lit ''README.md''"
  "lit ''social_media_posts.md'' \<noteq> lit ''complete_technical_content.md''"
  "lit ''social_media_posts.md'' \<noteq> lit ''technical_blog_post.md''"
  "lit ''social_media_posts.md'' \<noteq> lit ''midjourney_prompts.md''"
  "lit ''social_media_posts.md'' \<noteq> lit ''README.md''"
  "lit ''midjourney_prompts.md'' \<noteq> lit ''complete_technical_content.md''"
  "lit ''midjourney_prompts.md'' \<noteq> lit ''technical_blog_post.md''"
  "lit ''midjourney_prompts.md'' \<noteq> lit ''social_media_posts.md''"
  "lit ''midjourney_prompts.md'' \<noteq> lit ''README.md''"
  "lit ''README.md'' \<noteq> lit ''complete_technical_content.md''"
  "lit ''README.md'' \<noteq> lit ''technical_blog_post.md''"
  "lit ''README.md'' \<noteq> lit ''social_media_posts.md''"
  "lit ''README.md'' \<noteq> lit ''midjourney_prompts.md''"
  by (simp_all add: lit_def)

lemma qwen_files_lookup:
  "map_of (files (qwen_save_content_to_files ucd now topic s)) (lit ''complete_technical_content.md'') =
     Some (complete_technical_content_md now topic s)"
  "map_of (files (qwen_save_content_to_files ucd now topic s)) (lit ''technical_blog_post.md'') =
     (if blog_extracted s then Some (technical_blog_post_md now topic s) else None)"
  "map_of (files (qwen_save_content_to_files ucd now topic s)) (lit ''social_media_posts.md'') =
     (if social_extracted s then Some (social_media_posts_md now topic s) else None)"
  "map_of (files (qwen_save_content_to_files ucd now topic s)) (lit ''midjourney_prompts.md'') =
     (if midjourney_extracted s then Some (midjourney_prompts_md now topic s) else None)"
  "map_of (files (qwen_save_content_to_files ucd now topic s)) (lit ''README.md'') =
     Some (concat (qwen_README_writes now topic s))"
  by (simp_all add: qwen_save_content_to_files_def qwen_names_neq map_add_def)

lemma section_files_end_with_content:
  "suffix (blog_content s) (technical_blog_post_md now topic s)"
  "suffix (social_content s) (social_media_posts_md now topic s)"
  "suffix (midjourney_content s) (midjourney_prompts_md now topic s)"
  unfolding technical_blog_post_md_def social_media_posts_md_def midjourney_prompts_md_def
  by (simp_all only: suffix_appendI suffix_order.refl)

section \<open>The acceptance thresholds\<close>

text \<open>
  The claim as the specification states it (a section is present when its trimmed content
  has at least 100, 50 or 30 characters) fails at the boundary: a blog body of exactly 100
  characters is captured whole and is not accepted.
\<close>

theorem blog_of_exactly_100_not_extracted:
  "str_contains BLOG_POST (BLOG_POST @ replicate 100 97) \<and>
   blog_content (BLOG_POST @ replicate 100 97) = replicate 100 97 \<and>
   length (blog_content (BLOG_POST @ replicate 100 97)) = 100 \<and>
   \<not> blog_extracted (BLOG_POST @ replicate 100 97)"
proof -
  define c :: pystr where "c = BLOG_POST @ replicate 100 97"
  have len: "length c = 111" by (simp add: c_def marker_lengths)
  have i: "find_idx BLOG_POST c = Some 0"
    unfolding c_def by (rule find_idx_self_prefix)
  then have inc: "str_contains BLOG_POST c" by (simp add: str_contains_def)
  have s: "blog_start c = 11" by (simp add: blog_start_def str_find_def i marker_lengths)
  have n: "find_idx LINKEDIN_POSTS c = None" "find_idx TWITTER_POSTS c = None"
    "find_idx MIDJOURNEY_PROMPTS c = None"
    by (simp_all add: c_def marker_codes find_idx_None_no_head)
  have e: "blog_end c = 111" by (simp add: blog_end_def Let_def str_find_def n s len)
  have "str_slice c 11 111 = replicate 100 97"
    unfolding c_def using str_slice_suffix[of BLOG_POST "replicate 100 97"]
    by (simp add: marker_lengths)
  then have "blog_content c = strip (replicate 100 97)"
    by (simp add: blog_content_def s e)
  also have "\<dots> = replicate 100 97"
    by (rule strip_id) (simp_all add: isspace_def)
  finally have bc: "blog_content c = replicate 100 97" .
  then have "\<not> blog_extracted c" by (simp add: blog_extracted_def)
  with inc bc show ?thesis unfolding c_def by simp
qed

text \<open>
  Claim C3, as the code has it. The acceptance test is strict: a section is extracted when
  its start marker occurs and its trimmed content is longer than 100 (blog), 50 (social)
  or 30 (image prompts) characters, that is, has at least 101, 51 or 31. An extracted
  section is written to its file, which ends with the trimmed content; a section that is
  not extracted has no file.
\<close>

theorem extraction_thresholds_strict:
  "(blog_extracted s \<longleftrightarrow> str_contains BLOG_POST s \<and> 101 \<le> length (blog_content s)) \<and>
   (social_extracted s \<longleftrightarrow> str_contains LINKEDIN_POSTS s \<and> 51 \<le> length (social_content s)) \<and>
   (midjourney_extracted s \<longleftrightarrow>
      str_contains MIDJOURNEY_PROMPTS s \<and> 31 \<le> length (midjourney_content s)) \<and>
   map_of (files (qwen_save_content_to_files ucd now topic s)) (lit ''technical_blog_post.md'') =
     (if blog_extracted s then Some (technical_blog_post_md now topic s) else None) \<and>
   map_of (files (qwen_save_content_to_files ucd now topic s)) (lit ''social_media_posts.md'') =
     (if social_extracted s then Some (social_media_posts_md now topic s) else None) \<and>
   map_of (files (qwen_save_content_to_files ucd now topic s)) (lit ''midjourney_prompts.md'') =
     (if midjourney_extracted s then Some (midjourney_prompts_md now topic s) else None) \<and>
   suffix (blog_content s) (technical_blog_post_md now topic s) \<and>
   suffix (social_content s) (social_media_posts_md now topic s) \<and>
   suffix (midjourney_content s) (midjourney_prompts_md now topic s)"
proof -
  have "blog_extracted s \<longleftrightarrow> str_contains BLOG_POST s \<and> 101 \<le> length (blog_content s)"
    by (auto simp: blog_extracted_def)
  moreover have "social_extracted s \<longleftrightarrow>
      str_contains LINKEDIN_POSTS s \<and> 51 \<le> length (social_content s)"
    by (auto simp: social_extracted_def)
  moreover have "midjourney_extracted s \<longleftrightarrow>
      str_contains MIDJOURNEY_PROMPTS s \<and> 31 \<le> length (midjourney_content s)"
    by (auto simp: midjourney_extracted_def)
  ultimately show ?thesis
    using qwen_files_lookup(2,3,4)[of ucd now topic s] section_files_end_with_content[of s now topic]
    by blast
qed

section \<open>The complete file\<close>

lemma complete_files_split:
  "complete_technical_content_md now topic s = complete_technical_content_md now topic [] @ s"
  "complete_content_md now topic s = complete_content_md now topic [] @ s"
  by (simp_all add: complete_technical_content_md_def complete_content_md_def)

lemma main_names_neq:
  "lit ''01_BLOG_POST_MEDIUM.md'' \<noteq> lit ''complete_content.md''"
  "lit ''01_BLOG_POST_MEDIUM.md'' \<noteq> lit ''images_generated.txt''"
  "lit ''01_BLOG_POST_MEDIUM.md'' \<noteq> lit ''README.md''"
  "lit ''complete_content.md'' \<noteq> lit ''01_BLOG_POST_MEDIUM.md''"
  "lit ''complete_content.md'' \<noteq> lit ''images_generated.txt''"
  "lit ''complete_content.md'' \<noteq> lit ''README.md''"
  "lit ''images_generated.txt'' \<noteq> lit ''01_BLOG_POST_MEDIUM.md''"
  "lit ''images_generated.txt'' \<noteq> lit ''complete_content.md''"
  "lit ''images_generated.txt'' \<noteq> lit ''README.md''"
  "lit ''README.md'' \<noteq> lit ''01_BLOG_POST_MEDIUM.md''"
  "lit ''README.md'' \<noteq> lit ''complete_content.md''"
  "lit ''README.md'' \<noteq> lit ''images_generated.txt''"
  by (simp_all add: lit_def)

lemma main_complete_lookup:
  "map_of (files (main_save_content_to_files ucd now topic s images)) (lit ''complete_content.md'') =
     Some (complete_content_md now topic s)"
  by (simp add: main_save_content_to_files_def main_names_neq)

lemma qwen_complete_once:
  "length (filter (\<lambda>f. fst f = lit ''complete_technical_content.md'')
     (files (qwen_save_content_to_files ucd now topic s))) = 1"
  by (simp add: qwen_save_content_to_files_def qwen_names_neq)

lemma main_complete_once:
  "length (filter (\<lambda>f. fst f = lit ''complete_content.md'')
     (files (main_save_content_to_files ucd now topic s images))) = 1"
  by (simp add: main_save_content_to_files_def main_names_neq)

text \<open>
  The claim as the specification states it (the complete file equals the raw text) fails:
  the file starts with a generated header, so for the raw text \<open>hello\<close> its content is not
  \<open>hello\<close>.
\<close>

theorem complete_file_not_raw:
  "map_of (files (qwen_save_content_to_files ascii_only still_clock (lit ''Demo'') (lit ''hello'')))
     (lit ''complete_technical_content.md'') =
   Some (lit ''# Technical Content Package: Demo\<newline>\<newline>**Generated:** 2025-01-01 12:00:00\<newline>**Perspective:** Data Scientist Technical Blog\<newline>**Model:** DeepSeek R1 Distill Llama 70B\<newline>\<newline>---\<newline>\<newline>hello'') \<and>
   map_of (files (qwen_save_content_to_files ascii_only still_clock (lit ''Demo'') (lit ''hello'')))
     (lit ''complete_technical_content.md'') \<noteq> Some (lit ''hello'')"
proof -
  have "complete_technical_content_md still_clock (lit ''Demo'') (lit ''hello'') =
     lit ''# Technical Content Package: Demo\<newline>\<newline>**Generated:** 2025-01-01 12:00:00\<newline>**Perspective:** Data Scientist Technical Blog\<newline>**Model:** DeepSeek R1 Distill Llama 70B\<newline>\<newline>---\<newline>\<newline>hello''"
    by (simp add: complete_technical_content_md_def still_clock_def lit_def)
  moreover have "lit ''# Technical Content Package: Demo\<newline>\<newline>**Generated:** 2025-01-01 12:00:00\<newline>**Perspective:** Data Scientist Technical Blog\<newline>**Model:** DeepSeek R1 Distill Llama 70B\<newline>\<newline>---\<newline>\<newline>hello'' \<noteq> lit ''hello''"
    by (simp add: lit_def)
  ultimately show ?thesis
    by (simp add: qwen_files_lookup(1))
qed

text \<open>
  Claim C4, as the code has it. Whatever is extracted, \<open>researcherqwen.py\<close> writes
  \<open>complete_technical_content.md\<close> once and \<open>main.py\<close> writes \<open>complete_content.md\<close> once,
  and the content is a generated header (title, time of generation, a rule) followed by
  the raw text, unchanged.
\<close>

theorem complete_file_is_header_then_raw:
  "map_of (files (qwen_save_content_to_files ucd now topic s)) (lit ''complete_technical_content.md'') =
     Some (complete_technical_content_md now topic [] @ s) \<and>
   length (filter (\<lambda>f. fst f = lit ''complete_technical_content.md'')
     (files (qwen_save_content_to_files ucd now topic s))) = 1 \<and>
   map_of (files (main_save_content_to_files ucd now topic s images)) (lit ''complete_content.md'') =
     Some (complete_content_md now topic [] @ s) \<and>
   length (filter (\<lambda>f. fst f = lit ''complete_content.md'')
     (files (main_save_content_to_files ucd now topic s images))) = 1"
  using qwen_files_lookup(1)[of ucd now topic s] main_complete_lookup[of ucd now topic s images]
    complete_files_split[of now topic s] qwen_complete_once[of ucd now topic s]
    main_complete_once[of ucd now topic s images]
  by simp

section \<open>Extraction cannot fail\<close>

text \<open>
  \<open>in\<close>, \<open>find\<close>, slicing, \<open>strip\<close> and \<open>len\<close> are total on texts: none of them raises, a
  missing marker is the value \<open>-1\<close> and a slice that runs backwards is empty. The model has
  therefore no error value, and the saving function returns for every text.
\<close>

lemma files_created_le_4: "files_created s \<le> 4"
  by (simp add: files_created_def)

lemma qwen_files_count:
  "length (files (qwen_save_content_to_files ucd now topic s)) = files_created s + 1"
  by (simp add: qwen_save_content_to_files_def files_created_def)

lemma not_extracted_without_marker:
  "\<not> str_contains BLOG_POST s \<Longrightarrow> \<not> blog_extracted s"
  "\<not> str_contains LINKEDIN_POSTS s \<Longrightarrow> \<not> social_extracted s"
  "\<not> str_contains MIDJOURNEY_PROMPTS s \<Longrightarrow> \<not> midjourney_extracted s"
  by (simp_all add: blog_extracted_def social_extracted_def midjourney_extracted_def)

text \<open>
  Claim C7. For every raw text the complete file, with the raw text in it, and the index
  file are written; and in the worst case, when no section marker occurs (the empty text
  is one such), every section is reported not extracted and these two files are all that
  is written.
\<close>

theorem extraction_worst_case:
  "map_of (files (qwen_save_content_to_files ucd now topic s)) (lit ''complete_technical_content.md'') =
     Some (complete_technical_content_md now topic [] @ s) \<and>
   map_of (files (qwen_save_content_to_files ucd now topic s)) (lit ''README.md'') =
     Some (concat (qwen_README_writes now topic s)) \<and>
   (\<not> str_contains BLOG_POST s \<and> \<not> str_contains LINKEDIN_POSTS s \<and>
    \<not> str_contains MIDJOURNEY_PROMPTS s \<longrightarrow>
      \<not> blog_extracted s \<and> \<not> social_extracted s \<and> \<not> midjourney_extracted s \<and>
      files (qwen_save_content_to_files ucd now topic s) =
        [(lit ''complete_technical_content.md'', complete_technical_content_md now topic [] @ s),
         (lit ''README.md'', concat (qwen_README_writes now topic s))])"
proof -
  have "files (qwen_save_content_to_files ucd now topic s) =
        [(lit ''complete_technical_content.md'', complete_technical_content_md now topic [] @ s),
         (lit ''README.md'', concat (qwen_README_writes now topic s))]"
    if "\<not> blog_extracted s" "\<not> social_extracted s" "\<not> midjourney_extracted s"
    using that complete_files_split(1)[of now topic s]
    by (simp add: qwen_save_content_to_files_def)
  then show ?thesis
    using qwen_files_lookup(1,5)[of ucd now topic s] complete_files_split(1)[of now topic s]
      not_extracted_without_marker[of s]
    by auto
qed

theorem extraction_worst_case_witness:
  "\<not> str_contains BLOG_POST [] \<and> \<not> str_contains LINKEDIN_POSTS [] \<and>
   \<not> str_contains MIDJOURNEY_PROMPTS [] \<and>
   \<not> blog_extracted [] \<and> \<not> social_extracted [] \<and> \<not> midjourney_extracted [] \<and>
   files (qwen_save_content_to_files ascii_only still_clock (lit ''Demo'') []) =
     [(lit ''complete_technical_content.md'',
       complete_technical_content_md still_clock (lit ''Demo'') [] @ []),
      (lit ''README.md'', concat (qwen_README_writes still_clock (lit ''Demo'') []))]"
proof -
  have n: "\<not> str_contains BLOG_POST []" "\<not> str_contains LINKEDIN_POSTS []"
    "\<not> str_contains MIDJOURNEY_PROMPTS []"
    by (simp_all add: str_contains_def marker_codes)
  with extraction_worst_case[of ascii_only still_clock "lit ''Demo''" "[]"]
  show ?thesis by blast
qed

section \<open>Where each section starts\<close>

lemma rstrip_append_nonspace:
  assumes "a \<noteq> []" "\<not> isspace (last a)"
  shows "rstrip (a @ b) = a @ rstrip b"
proof (cases "\<forall>x \<in> set (rev b). isspace x")
  case True
  then have "dropWhile isspace (rev b) = []" by simp
  moreover from assms have "dropWhile isspace (rev a) = rev a"
    by (cases "rev a") (simp_all add: last_rev[symmetric] hd_rev)
  ultimately show ?thesis
    using True by (simp add: rstrip_def dropWhile_append)
next
  case False
  then show ?thesis
    by (auto simp: rstrip_def dropWhile_append)
qed

lemma strip_marker_append:
  assumes "a \<noteq> []" "\<not> isspace (hd a)" "\<not> isspace (last a)"
  shows "strip (a @ b) = a @ rstrip b"
proof -
  from assms(1,2) have "lstrip (a @ b) = a @ b"
    by (intro lstrip_id) simp_all
  with rstrip_append_nonspace[OF assms(1,3)] show ?thesis
    by (simp add: strip_def)
qed

lemma marker_ends:
  "BLOG_POST \<noteq> []" "LINKEDIN_POSTS \<noteq> []" "TWITTER_POSTS \<noteq> []" "MIDJOURNEY_PROMPTS \<noteq> []"
  "\<not> isspace (hd LINKEDIN_POSTS)" "\<not> isspace (last LINKEDIN_POSTS)"
  "\<not> isspace (hd MIDJOURNEY_PROMPTS)" "\<not> isspace (last MIDJOURNEY_PROMPTS)"
  by (simp_all add: marker_codes isspace_def)

lemma marker_heads:
  "hd LINKEDIN_POSTS = 35" "hd TWITTER_POSTS = 35" "hd MIDJOURNEY_PROMPTS = 35"
  by (simp_all add: marker_codes)

lemma str_slice_drop:
  "i \<le> length s \<Longrightarrow> str_slice s (int i) (int (length s)) = drop i s"
  by (simp add: str_slice_def slice_bound_def Let_def)

lemma str_slice_take_drop:
  "i \<le> e \<Longrightarrow> e \<le> length s \<Longrightarrow> str_slice s (int i) (int e) = take (e - i) (drop i s)"
  by (simp add: str_slice_def slice_bound_def Let_def min_def)

lemma find_idx_decompose:
  assumes "find_idx sub s = Some i"
  shows "\<exists>pre rest. s = pre @ sub @ rest \<and> length pre = i \<and> drop i s = sub @ rest"
proof -
  from find_idx_split[OF assms] obtain rest where d: "drop i s = sub @ rest" by blast
  from find_idx_SomeD[OF assms] have "i \<le> length s" by simp
  then have "length (take i s) = i" by simp
  moreover have "s = take i s @ sub @ rest"
    using d by (metis append_take_drop_id)
  ultimately show ?thesis using d by blast
qed

lemma midjourney_content_keeps_marker:
  assumes "str_contains MIDJOURNEY_PROMPTS s"
  shows "\<exists>pre rest. s = pre @ MIDJOURNEY_PROMPTS @ rest \<and>
           int (length pre) = str_find s MIDJOURNEY_PROMPTS \<and>
           midjourney_content s = MIDJOURNEY_PROMPTS @ rstrip rest"
proof -
  from assms obtain i where i: "find_idx MIDJOURNEY_PROMPTS s = Some i"
    by (auto simp: str_contains_def)
  from find_idx_decompose[OF i] obtain pre rest where
    s: "s = pre @ MIDJOURNEY_PROMPTS @ rest" and l: "length pre = i"
    and d: "drop i s = MIDJOURNEY_PROMPTS @ rest"
    by blast
  from find_idx_SomeD[OF i] have le: "i \<le> length s" by simp
  have st: "midjourney_start s = int i"
    by (simp add: midjourney_start_def str_find_def i)
  have "midjourney_content s = strip (drop i s)"
    unfolding midjourney_content_def st using str_slice_drop[OF le] by simp
  also have "\<dots> = MIDJOURNEY_PROMPTS @ rstrip rest"
    unfolding d by (rule strip_marker_append) (simp_all only: marker_ends not_False_eq_True)
  finally have c: "midjourney_content s = MIDJOURNEY_PROMPTS @ rstrip rest" .
  have "int (length pre) = str_find s MIDJOURNEY_PROMPTS"
    by (simp add: str_find_def i l)
  with s c show ?thesis by blast
qed

lemma blog_content_after_marker:
  assumes "str_contains BLOG_POST s"
  shows "\<exists>pre rest. s = pre @ BLOG_POST @ rest \<and>
           int (length pre) = str_find s BLOG_POST \<and>
           blog_start s = int (length pre + length BLOG_POST) \<and>
           blog_content s = strip (take (nat (blog_end s - blog_start s)) rest)"
proof -
  from assms obtain i where i: "find_idx BLOG_POST s = Some i"
    by (auto simp: str_contains_def)
  from find_idx_decompose[OF i] obtain pre rest where
    s: "s = pre @ BLOG_POST @ rest" and l: "length pre = i"
    and d: "drop i s = BLOG_POST @ rest"
    by blast
  have bs: "blog_start s = int (i + length BLOG_POST)"
    by (simp add: blog_start_def str_find_def i)
  from blog_end_after_start[OF assms] have
    be: "blog_start s \<le> blog_end s" "blog_end s \<le> int (length s)" by simp_all
  define e where "e = nat (blog_end s)"
  from be bs have e: "blog_end s = int e" "i + length BLOG_POST \<le> e" "e \<le> length s"
    by (simp_all add: e_def)
  have dd: "drop (i + length BLOG_POST) s = rest"
    using d by (metis add.commute append_eq_conv_conj drop_drop)
  have "blog_content s = strip (take (e - (i + length BLOG_POST)) (drop (i + length BLOG_POST) s))"
    unfolding blog_content_def bs e(1) using str_slice_take_drop[OF e(2,3)] by simp
  also have "\<dots> = strip (take (nat (blog_end s - blog_start s)) rest)"
    unfolding dd bs e(1) by (simp add: nat_diff_distrib' del: of_nat_add)
  finally have c: "blog_content s = strip (take (nat (blog_end s - blog_start s)) rest)" .
  have "int (length pre) = str_find s BLOG_POST"
    by (simp add: str_find_def i l)
  moreover have "blog_start s = int (length pre + length BLOG_POST)"
    using bs l by simp
  ultimately show ?thesis using s c by blast
qed

lemma linkedin_inner_chars: "0 < k \<Longrightarrow> k < 16 \<Longrightarrow> LINKEDIN_POSTS ! k \<noteq> 35"
proof -
  assume k: "0 < k" "k < 16"
  have t: "tl LINKEDIN_POSTS = [32, 76, 73, 78, 75, 69, 68, 73, 78, 32, 80, 79, 83, 84, 83]"
    by (simp add: marker_codes)
  from k have "LINKEDIN_POSTS ! k = tl LINKEDIN_POSTS ! (k - 1)"
    by (cases k) (simp_all add: marker_codes)
  moreover from k have "k - 1 < length (tl LINKEDIN_POSTS)"
    unfolding t by simp
  ultimately have "LINKEDIN_POSTS ! k \<in> set (tl LINKEDIN_POSTS)"
    by (metis nth_mem)
  then show ?thesis unfolding t by auto
qed

lemma header_not_inside_linkedin:
  assumes L: "drop i s = LINKEDIN_POSTS @ rest"
    and M: "prefix m (drop p s)" "m \<noteq> []" "hd m = 35"
    and ip: "i < p"
  shows "i + 16 \<le> p"
proof (rule ccontr)
  assume "\<not> i + 16 \<le> p"
  with ip have k: "0 < p - i" "p - i < 16" by simp_all
  from M(1,2) obtain r where r: "drop p s = m @ r" by (auto simp: prefix_def)
  with M(2) have pl: "p < length s"
    by (metis append_is_Nil_conv drop_all not_le_imp_less)
  from r M(2,3) have "hd (drop p s) = 35" by simp
  with pl have sp: "s ! p = 35" by (simp add: hd_drop_conv_nth)
  from ip pl have "s ! p = drop i s ! (p - i)" by simp
  also have "\<dots> = LINKEDIN_POSTS ! (p - i)"
    unfolding L using k(2) by (simp add: nth_append marker_lengths)
  finally show False
    using sp linkedin_inner_chars[OF k] by simp
qed

lemma str_find_prefix:
  assumes "0 \<le> str_find s m"
  shows "str_find s m \<le> int (length s) \<and> prefix m (drop (nat (str_find s m)) s)"
proof -
  from assms obtain i where i: "find_idx m s = Some i"
    by (auto simp: str_find_def split: option.splits)
  with find_idx_SomeD[OF i] show ?thesis by (simp add: str_find_def)
qed

lemma str_find_from_prefix:
  assumes "0 \<le> st" "0 \<le> str_find_from s m st"
  shows "st \<le> str_find_from s m st \<and> str_find_from s m st \<le> int (length s) \<and>
         prefix m (drop (nat (str_find_from s m st)) s)"
proof -
  from assms have le: "st \<le> int (length s)"
    by (auto simp: str_find_from_def Let_def split: if_splits)
  with assms obtain j where j: "find_idx m (drop (nat st) s) = Some j"
    and p: "str_find_from s m st = st + int j"
    by (auto simp: str_find_from_def Let_def split: if_splits option.splits)
  from find_idx_SomeD[OF j] have "j \<le> length s - nat st" "prefix m (drop j (drop (nat st) s))"
    by simp_all
  moreover have "nat (st + int j) = j + nat st" using assms(1) by simp
  ultimately show ?thesis
    using assms(1) le unfolding p by (simp add: nat_le_iff)
qed

lemma social_end_unfold:
  "social_end s =
     (let e0 = (if social_start s < str_find_from s TWITTER_POSTS (social_start s + 1)
                then str_find_from s TWITTER_POSTS (social_start s + 1)
                else if social_start s < str_find_from s MIDJOURNEY_PROMPTS (social_start s + 1)
                then str_find_from s MIDJOURNEY_PROMPTS (social_start s + 1)
                else int (length s))
      in if str_contains TWITTER_POSTS s
         then (if str_find s TWITTER_POSTS < e0 \<or> e0 = int (length s)
               then (if str_find s MIDJOURNEY_PROMPTS > str_find s TWITTER_POSTS
                     then str_find s MIDJOURNEY_PROMPTS else int (length s))
               else e0)
         else e0)"
  by (simp add: social_end_def Let_def)

lemma social_end_bounds:
  assumes c: "str_contains LINKEDIN_POSTS s" and lt: "social_start s < social_end s"
  shows "social_start s + 16 \<le> social_end s \<and> social_end s \<le> int (length s)"
proof -
  from c obtain i where i: "find_idx LINKEDIN_POSTS s = Some i"
    by (auto simp: str_contains_def)
  from find_idx_split[OF i] obtain rest where d: "drop i s = LINKEDIN_POSTS @ rest" by blast
  have st: "social_start s = int i" by (simp add: social_start_def str_find_def i)
  from find_idx_bound[OF i] have len: "int i + 16 \<le> int (length s)"
    by (simp add: marker_lengths)
  have ok_find: "p \<le> int (length s) \<and> (int i < p \<longrightarrow> int i + 16 \<le> p)"
    if "p = str_find s m" "m = TWITTER_POSTS \<or> m = MIDJOURNEY_PROMPTS" for p m
  proof (cases "0 \<le> p")
    case False
    then show ?thesis by simp
  next
    case True
    with str_find_prefix[of s m] that(1)
    have b: "p \<le> int (length s)" and pre: "prefix m (drop (nat p) s)" by simp_all
    have m: "m \<noteq> []" "hd m = 35"
      using that(2) marker_ends(3,4) marker_heads(2,3) by metis+
    have "int i + 16 \<le> p" if "int i < p"
    proof -
      from that True have "i < nat p" by simp
      from header_not_inside_linkedin[OF d pre m this] True show ?thesis by simp
    qed
    with b show ?thesis by simp
  qed
  have ok_from: "p \<le> int (length s) \<and> (int i < p \<longrightarrow> int i + 16 \<le> p)"
    if "p = str_find_from s m (int i + 1)" "m = TWITTER_POSTS \<or> m = MIDJOURNEY_PROMPTS" for p m
  proof (cases "0 \<le> p")
    case False
    then show ?thesis by simp
  next
    case True
    with str_find_from_prefix[of "int i + 1" s m] that(1)
    have b: "p \<le> int (length s)" and pre: "prefix m (drop (nat p) s)" by simp_all
    have m: "m \<noteq> []" "hd m = 35"
      using that(2) marker_ends(3,4) marker_heads(2,3) by metis+
    have "int i + 16 \<le> p" if "int i < p"
    proof -
      from that True have "i < nat p" by simp
      from header_not_inside_linkedin[OF d pre m this] True show ?thesis by simp
    qed
    with b show ?thesis by simp
  qed
  note f1 = ok_find[OF refl, of TWITTER_POSTS, simplified]
  note f2 = ok_find[OF refl, of MIDJOURNEY_PROMPTS, simplified]
  note g1 = ok_from[OF refl, of TWITTER_POSTS, simplified]
  note g2 = ok_from[OF refl, of MIDJOURNEY_PROMPTS, simplified]
  have "social_end s \<le> int (length s) \<and> (int i < social_end s \<longrightarrow> int i + 16 \<le> social_end s)"
    unfolding social_end_unfold st Let_def
    using f1 f2 g1 g2 len by (simp split: if_splits)
  with lt st show ?thesis by simp
qed

lemma social_end_nonneg:
  assumes "str_contains LINKEDIN_POSTS s"
  shows "0 \<le> social_end s"
proof -
  from assms have st: "0 \<le> social_start s"
    by (simp add: social_start_def str_contains_find)
  have tw: "0 \<le> str_find s TWITTER_POSTS" if "str_contains TWITTER_POSTS s"
    using that by (simp add: str_contains_find)
  show ?thesis
    unfolding social_end_unfold Let_def using st tw by (auto split: if_splits)
qed

lemma str_slice_backwards: "0 \<le> b \<Longrightarrow> b \<le> int i \<Longrightarrow> str_slice s (int i) b = []"
  by (auto simp: str_slice_def slice_bound_def Let_def min_def)

lemma social_content_keeps_marker:
  assumes "social_extracted s"
  shows "\<exists>pre rest. s = pre @ LINKEDIN_POSTS @ rest \<and>
           int (length pre) = str_find s LINKEDIN_POSTS \<and>
           social_content s =
             LINKEDIN_POSTS @ rstrip (take (nat (social_end s - social_start s) - 16) rest)"
proof -
  from assms have c: "str_contains LINKEDIN_POSTS s" and n: "social_content s \<noteq> []"
    by (auto simp: social_extracted_def)
  from c obtain i where i: "find_idx LINKEDIN_POSTS s = Some i"
    by (auto simp: str_contains_def)
  from find_idx_decompose[OF i] obtain pre rest where
    s: "s = pre @ LINKEDIN_POSTS @ rest" and l: "length pre = i"
    and d: "drop i s = LINKEDIN_POSTS @ rest"
    by blast
  have st: "social_start s = int i" by (simp add: social_start_def str_find_def i)
  have lt: "social_start s < social_end s"
  proof (rule ccontr)
    assume "\<not> social_start s < social_end s"
    with social_end_nonneg[OF c] have "str_slice s (social_start s) (social_end s) = []"
      unfolding st by (intro str_slice_backwards) simp_all
    then have "social_content s = []"
      by (simp add: social_content_def strip_def lstrip_def rstrip_def)
    with n show False by simp
  qed
  from social_end_bounds[OF c lt] have b: "int i + 16 \<le> social_end s" "social_end s \<le> int (length s)"
    unfolding st by simp_all
  define e where "e = nat (social_end s)"
  from b have e: "social_end s = int e" "i + 16 \<le> e" "e \<le> length s"
    by (simp_all add: e_def)
  then have ie: "i \<le> e" by simp
  have "str_slice s (int i) (int e) = take (e - i) (LINKEDIN_POSTS @ rest)"
    using str_slice_take_drop[OF ie e(3)] d by simp
  also have "\<dots> = LINKEDIN_POSTS @ take (e - i - 16) rest"
    using e(2) by (simp add: marker_lengths)
  finally have "social_content s = strip (LINKEDIN_POSTS @ take (e - i - 16) rest)"
    by (simp add: social_content_def st e(1))
  also have "\<dots> = LINKEDIN_POSTS @ rstrip (take (e - i - 16) rest)"
    by (rule strip_marker_append) (simp_all only: marker_ends not_False_eq_True)
  also have "e - i = nat (social_end s - social_start s)"
    unfolding st e(1) by simp
  finally have c': "social_content s =
      LINKEDIN_POSTS @ rstrip (take (nat (social_end s - social_start s) - 16) rest)" .
  have "int (length pre) = str_find s LINKEDIN_POSTS"
    by (simp add: str_find_def i l)
  with s c' show ?thesis by blast
qed

section \<open>The text with all three sections\<close>

lemma find_idx_skip:
  "x \<notin> set a \<Longrightarrow> find_idx (x # sub') (a @ t) = map_option (\<lambda>i. length a + i) (find_idx (x # sub') t)"
proof (induction a)
  case Nil
  then show ?case by (simp add: option.map_ident)
next
  case (Cons y a)
  then show ?case by (simp add: option.map_comp comp_def)
qed

lemma all_sections_len: "length all_sections_text = 248"
  by (simp add: all_sections_text_def marker_lengths)

lemma all_sections_find:
  "find_idx BLOG_POST all_sections_text = Some 0"
  "find_idx LINKEDIN_POSTS all_sections_text = Some 112"
  "find_idx TWITTER_POSTS all_sections_text = None"
  "find_idx MIDJOURNEY_PROMPTS all_sections_text = Some 188"
  by (simp_all add: all_sections_text_def marker_codes find_idx_skip find_idx_None_no_head)

lemma all_sections_find_from:
  "str_find_from all_sections_text TWITTER_POSTS 113 = - 1"
  "str_find_from all_sections_text MIDJOURNEY_PROMPTS 113 = 188"
  by (simp_all add: str_find_from_def all_sections_len Let_def all_sections_text_def marker_codes find_idx_skip find_idx_None_no_head)

lemma all_sections_blog:
  "blog_start all_sections_text = 11" "blog_end all_sections_text = 112" "blog_content all_sections_text = replicate 101 97" "blog_extracted all_sections_text"
proof -
  show s: "blog_start all_sections_text = 11"
    by (simp add: blog_start_def str_find_def all_sections_find marker_lengths)
  show e: "blog_end all_sections_text = 112"
    by (simp add: blog_end_def Let_def s str_find_def all_sections_find)
  have "str_slice all_sections_text 11 112 = replicate 101 97"
    by (simp add: str_slice_nonneg all_sections_len) (simp add: all_sections_text_def marker_lengths)
  then have "blog_content all_sections_text = strip (replicate 101 97)"
    by (simp add: blog_content_def s e)
  also have "\<dots> = replicate 101 97"
    by (rule strip_id) (simp_all add: isspace_def)
  finally show c: "blog_content all_sections_text = replicate 101 97" .
  show "blog_extracted all_sections_text"
    by (simp add: blog_extracted_def c str_contains_def all_sections_find)
qed

lemma all_sections_social:
  "social_start all_sections_text = 112" "social_end all_sections_text = 188"
  "social_content all_sections_text = LINKEDIN_POSTS @ replicate 60 98" "social_extracted all_sections_text"
proof -
  show s: "social_start all_sections_text = 112"
    by (simp add: social_start_def str_find_def all_sections_find)
  show e: "social_end all_sections_text = 188"
    by (simp add: social_end_def Let_def s all_sections_find_from str_contains_def all_sections_find all_sections_len)
  have "str_slice all_sections_text 112 188 = LINKEDIN_POSTS @ replicate 60 98"
    by (simp add: str_slice_nonneg all_sections_len) (simp add: all_sections_text_def marker_lengths)
  then have "social_content all_sections_text = strip (LINKEDIN_POSTS @ replicate 60 98)"
    by (simp add: social_content_def s e)
  also have "\<dots> = LINKEDIN_POSTS @ rstrip (replicate 60 98)"
    by (rule strip_marker_append) (simp_all only: marker_ends not_False_eq_True)
  also have "rstrip (replicate 60 98) = replicate 60 98"
    by (rule rstrip_id) (simp_all add: isspace_def)
  finally show c: "social_content all_sections_text = LINKEDIN_POSTS @ replicate 60 98" .
  show "social_extracted all_sections_text"
    by (simp add: social_extracted_def c str_contains_def all_sections_find marker_lengths)
qed

lemma all_sections_midjourney:
  "midjourney_start all_sections_text = 188"
  "midjourney_content all_sections_text = MIDJOURNEY_PROMPTS @ replicate 40 99" "midjourney_extracted all_sections_text"
proof -
  show s: "midjourney_start all_sections_text = 188"
    by (simp add: midjourney_start_def str_find_def all_sections_find)
  have "str_slice all_sections_text 188 248 = MIDJOURNEY_PROMPTS @ replicate 40 99"
    by (simp add: str_slice_nonneg all_sections_len) (simp add: all_sections_text_def marker_lengths)
  then have "midjourney_content all_sections_text = strip (MIDJOURNEY_PROMPTS @ replicate 40 99)"
    by (simp add: midjourney_content_def s all_sections_len)
  also have "\<dots> = MIDJOURNEY_PROMPTS @ rstrip (replicate 40 99)"
    by (rule strip_marker_append) (simp_all only: marker_ends not_False_eq_True)
  also have "rstrip (replicate 40 99) = replicate 40 99"
    by (rule rstrip_id) (simp_all add: isspace_def)
  finally show c: "midjourney_content all_sections_text = MIDJOURNEY_PROMPTS @ replicate 40 99" .
  show "midjourney_extracted all_sections_text"
    by (simp add: midjourney_extracted_def c str_contains_def all_sections_find marker_lengths)
qed

text \<open>
  The claim as the specification states it (in every section the capture begins just after
  the start marker) fails for the image prompts: the capture begins at the marker, so the
  stored content is not the trimmed text after the marker.
\<close>

theorem midjourney_content_includes_marker:
  "str_find (MIDJOURNEY_PROMPTS @ replicate 40 97) MIDJOURNEY_PROMPTS = 0 \<and>
   midjourney_content (MIDJOURNEY_PROMPTS @ replicate 40 97) =
     MIDJOURNEY_PROMPTS @ replicate 40 97 \<and>
   midjourney_content (MIDJOURNEY_PROMPTS @ replicate 40 97) \<noteq>
     strip (str_slice (MIDJOURNEY_PROMPTS @ replicate 40 97) (int (length MIDJOURNEY_PROMPTS))
       (int (length (MIDJOURNEY_PROMPTS @ replicate 40 97))))"
proof -
  define c :: pystr where "c = MIDJOURNEY_PROMPTS @ replicate 40 97"
  have i: "find_idx MIDJOURNEY_PROMPTS c = Some 0"
    unfolding c_def by (rule find_idx_self_prefix)
  then have f: "str_find c MIDJOURNEY_PROMPTS = 0" by (simp add: str_find_def)
  have "str_slice c 0 (int (length c)) = c"
    using str_slice_drop[of 0 c] by simp
  then have "midjourney_content c = strip c"
    by (simp add: midjourney_content_def midjourney_start_def f)
  also have "\<dots> = MIDJOURNEY_PROMPTS @ rstrip (replicate 40 97)"
    unfolding c_def by (rule strip_marker_append) (simp_all only: marker_ends not_False_eq_True)
  also have "rstrip (replicate 40 97) = replicate 40 97"
    by (rule rstrip_id) (simp_all add: isspace_def)
  finally have m: "midjourney_content c = MIDJOURNEY_PROMPTS @ replicate 40 97" .
  have "str_slice c (int (length MIDJOURNEY_PROMPTS)) (int (length c)) = replicate 40 97"
    using str_slice_suffix[of MIDJOURNEY_PROMPTS "replicate 40 (97::nat)"] by (simp add: c_def)
  moreover have "strip (replicate 40 97) = replicate 40 97"
    by (rule strip_id) (simp_all add: isspace_def)
  ultimately have "strip (str_slice c (int (length MIDJOURNEY_PROMPTS)) (int (length c))) =
      replicate 40 97"
    by simp
  moreover have "MIDJOURNEY_PROMPTS @ replicate 40 97 \<noteq> replicate 40 (97::nat)"
    by (simp add: marker_ends)
  ultimately show ?thesis
    using f m unfolding c_def by simp
qed

text \<open>
  Claim C5, as the code has it. The blog capture begins at the position just after the
  blog marker, and the stored content is that capture trimmed. The social capture and the
  image prompt capture begin at their start marker itself: the stored content is the
  marker text followed by the rest of the capture with trailing whitespace removed (for
  the social section, whenever it is extracted).
\<close>

theorem capture_start_of_each_section:
  "(str_contains BLOG_POST s \<longrightarrow>
      (\<exists>pre rest. s = pre @ BLOG_POST @ rest \<and>
         int (length pre) = str_find s BLOG_POST \<and>
         blog_start s = int (length pre + length BLOG_POST) \<and>
         blog_content s = strip (take (nat (blog_end s - blog_start s)) rest))) \<and>
   (social_extracted s \<longrightarrow>
      (\<exists>pre rest. s = pre @ LINKEDIN_POSTS @ rest \<and>
         int (length pre) = str_find s LINKEDIN_POSTS \<and>
         social_content s =
           LINKEDIN_POSTS @ rstrip (take (nat (social_end s - social_start s) - 16) rest))) \<and>
   (str_contains MIDJOURNEY_PROMPTS s \<longrightarrow>
      (\<exists>pre rest. s = pre @ MIDJOURNEY_PROMPTS @ rest \<and>
         int (length pre) = str_find s MIDJOURNEY_PROMPTS \<and>
         midjourney_content s = MIDJOURNEY_PROMPTS @ rstrip rest))"
  using blog_content_after_marker[of s] social_content_keeps_marker[of s]
    midjourney_content_keeps_marker[of s]
  by blast

theorem capture_start_of_each_section_witness:
  "str_contains BLOG_POST all_sections_text \<and> social_extracted all_sections_text \<and>
   str_contains MIDJOURNEY_PROMPTS all_sections_text \<and>
   (\<exists>pre rest. all_sections_text = pre @ BLOG_POST @ rest \<and>
      int (length pre) = str_find all_sections_text BLOG_POST \<and>
      blog_start all_sections_text = int (length pre + length BLOG_POST) \<and>
      blog_content all_sections_text =
        strip (take (nat (blog_end all_sections_text - blog_start all_sections_text)) rest)) \<and>
   (\<exists>pre rest. all_sections_text = pre @ LINKEDIN_POSTS @ rest \<and>
      int (length pre) = str_find all_sections_text LINKEDIN_POSTS \<and>
      social_content all_sections_text =
        LINKEDIN_POSTS @
        rstrip (take (nat (social_end all_sections_text - social_start all_sections_text) - 16)
          rest)) \<and>
   (\<exists>pre rest. all_sections_text = pre @ MIDJOURNEY_PROMPTS @ rest \<and>
      int (length pre) = str_find all_sections_text MIDJOURNEY_PROMPTS \<and>
      midjourney_content all_sections_text = MIDJOURNEY_PROMPTS @ rstrip rest)"
proof -
  have h: "str_contains BLOG_POST all_sections_text" "social_extracted all_sections_text"
    "str_contains MIDJOURNEY_PROMPTS all_sections_text"
    by (simp_all add: str_contains_def all_sections_find all_sections_social)
  with capture_start_of_each_section[of all_sections_text] show ?thesis
    by blast
qed

section \<open>The index file\<close>

lemma qwen_README_lines:
  "qwen_README_writes now topic s ! 3 =
     lit ''**Success Rate:** '' @ str_nat (files_created s) @ lit ''/5 files created\<newline>\<newline>''"
  "qwen_README_writes now topic s ! 5 =
     (if blog_extracted s
      then lit ''- '' @ [9989]
         @ lit '' `technical_blog_post.md` - **MAIN TECHNICAL BLOG** (1000-1500 words)\<newline>''
      else lit ''- '' @ [10060]
         @ lit '' `technical_blog_post.md` - Main technical blog (not extracted)\<newline>'')"
  "qwen_README_writes now topic s ! 6 =
     (if social_extracted s
      then lit ''- '' @ [9989] @ lit '' `social_media_posts.md` - LinkedIn & Twitter content\<newline>''
      else lit ''- '' @ [10060]
         @ lit '' `social_media_posts.md` - Social media content (not extracted)\<newline>'')"
  "qwen_README_writes now topic s ! 7 =
     (if midjourney_extracted s
      then lit ''- '' @ [9989] @ lit '' `midjourney_prompts.md` - MidJourney visual prompts\<newline>''
      else lit ''- '' @ [10060]
         @ lit '' `midjourney_prompts.md` - MidJourney prompts (not extracted)\<newline>'')"
  by (simp_all add: qwen_README_writes_def)

text \<open>
  Claim C6. The status lines of the index do follow the extraction flags
  (\<open>qwen_README_lines\<close>), but the count does not: the counter starts at one for the complete
  file and adds one for each extracted section, so it is at most 4
  (\<open>files_created_le_4\<close>), the index file itself is never counted
  (\<open>qwen_files_count\<close>), and the text printed is \<open>K/5\<close>. When every section is extracted
  the directory holds 5 files and the index reports \<open>4/5 files created\<close>.
\<close>

theorem success_rate_is_four_of_five:
  "blog_extracted all_sections_text \<and> social_extracted all_sections_text \<and>
   midjourney_extracted all_sections_text \<and>
   files_created all_sections_text = 4 \<and>
   length (files (qwen_save_content_to_files ascii_only still_clock (lit ''Demo'')
     all_sections_text)) = 5 \<and>
   qwen_README_writes still_clock (lit ''Demo'') all_sections_text ! 3 =
     lit ''**Success Rate:** 4/5 files created\<newline>\<newline>''"
proof -
  have x: "blog_extracted all_sections_text" "social_extracted all_sections_text"
    "midjourney_extracted all_sections_text"
    by (simp_all add: all_sections_blog all_sections_social all_sections_midjourney)
  then have k: "files_created all_sections_text = 4"
    by (simp add: files_created_def)
  have "qwen_README_writes still_clock (lit ''Demo'') all_sections_text ! 3 =
     lit ''**Success Rate:** '' @ str_nat 4 @ lit ''/5 files created\<newline>\<newline>''"
    unfolding qwen_README_lines(1) k ..
  also have "\<dots> = lit ''**Success Rate:** 4/5 files created\<newline>\<newline>''"
    by (simp add: lit_def)
  finally show ?thesis
    using x k qwen_files_count[of ascii_only still_clock "lit ''Demo''" all_sections_text]
    by simp
qed

section \<open>The archive and the directory\<close>

lemma package_names_neq:
  "lit ''01_research_findings.md'' \<noteq> lit ''02_technical_blog_post.md''"
  "lit ''01_research_findings.md'' \<noteq> lit ''03_social_media_content.md''"
  "lit ''01_research_findings.md'' \<noteq> lit ''complete_content_package.md''"
  "lit ''01_research_findings.md'' \<noteq> lit ''complete_multi_agent_content.md''"
  "lit ''01_research_findings.md'' \<noteq> lit ''README.md''"
  "lit ''02_technical_blog_post.md'' \<noteq> lit ''01_research_findings.md''"
  "lit ''02_technical_blog_post.md'' \<noteq> lit ''03_social_media_content.md''"
  "lit ''02_technical_blog_post.md'' \<noteq> lit ''complete_content_package.md''"
  "lit ''02_technical_blog_post.md'' \<noteq> lit ''complete_multi_agent_content.md''"
  "lit ''02_technical_blog_post.md'' \<noteq> lit ''README.md''"
  "lit ''03_social_media_content.md'' \<noteq> lit ''01_research_findings.md''"
  "lit ''03_social_media_content.md'' \<noteq> lit ''02_technical_blog_post.md''"
  "lit ''03_social_media_content.md'' \<noteq> lit ''complete_content_package.md''"
  "lit ''03_social_media_content.md'' \<noteq> lit ''complete_multi_agent_content.md''"
  "lit ''03_social_media_content.md'' \<noteq> lit ''README.md''"
  "lit ''complete_content_package.md'' \<noteq> lit ''01_research_findings.md''"
  "lit ''complete_content_package.md'' \<noteq> lit ''02_technical_blog_post.md''"
  "lit ''complete_content_package.md'' \<noteq> lit ''03_social_media_content.md''"
  "lit ''complete_content_package.md'' \<noteq> lit ''complete_multi_agent_content.md''"
  "lit ''complete_content_package.md'' \<noteq> lit ''README.md''"
  "lit ''complete_multi_agent_content.md'' \<noteq> lit ''01_research_findings.md''"
  "lit ''complete_multi_agent_content.md'' \<noteq> lit ''02_technical_blog_post.md''"
  "lit ''complete_multi_agent_content.md'' \<noteq> lit ''03_social_media_content.md''"
  "lit ''complete_multi_agent_content.md'' \<noteq> lit ''complete_content_package.md''"
  "lit ''complete_multi_agent_content.md'' \<noteq> lit ''README.md''"
  "lit ''README.md'' \<noteq> lit ''01_research_findings.md''"
  "lit ''README.md'' \<noteq> lit ''02_technical_blog_post.md''"
  "lit ''README.md'' \<noteq> lit ''03_social_media_content.md''"
  "lit ''README.md'' \<noteq> lit ''complete_content_package.md''"
  "lit ''README.md'' \<noteq> lit ''complete_multi_agent_content.md''"
  by (simp_all add: lit_def)

lemma payload_files_split:
  "zip_research_findings_md now topic r = zip_research_findings_md now topic [] @ r"
  "zip_technical_blog_post_md now topic c = zip_technical_blog_post_md now topic [] @ c"
  "zip_social_media_content_md now topic x = zip_social_media_content_md now topic [] @ x"
  "research_findings_md now topic r = research_findings_md now topic [] @ r"
  "kilo_technical_blog_post_md now topic c = kilo_technical_blog_post_md now topic [] @ c"
  "social_media_content_md now topic x = social_media_content_md now topic [] @ x"
  by (simp_all add: zip_research_findings_md_def zip_technical_blog_post_md_def
      zip_social_media_content_md_def research_findings_md_def kilo_technical_blog_post_md_def
      social_media_content_md_def)

text \<open>
  The claim as the specification states it (the archive and the directory hold the same
  names with the same contents) fails: the archive has \<open>complete_content_package.md\<close>,
  which the directory of \<open>researcherkilo.py\<close> has not, and the research file has another
  header line in each.
\<close>

theorem archive_differs_from_directory:
  "map_of (create_download_zip still_clock (lit ''Demo'') (lit ''r'') (lit ''c'') (lit ''s''))
     (lit ''complete_content_package.md'') \<noteq> None \<and>
   map_of (files (kilo_save_content_to_files ascii_only still_clock (lit ''Demo'')
     (lit ''r'') (lit ''c'') (lit ''s''))) (lit ''complete_content_package.md'') = None \<and>
   map_of (create_download_zip still_clock (lit ''Demo'') (lit ''r'') (lit ''c'') (lit ''s''))
     (lit ''01_research_findings.md'') =
     Some (lit ''# Research Findings: Demo\<newline>\<newline>*Generated: 2025-01-01 12:00:00*\<newline>\<newline>r'') \<and>
   map_of (files (kilo_save_content_to_files ascii_only still_clock (lit ''Demo'')
     (lit ''r'') (lit ''c'') (lit ''s''))) (lit ''01_research_findings.md'') =
     Some (lit ''# Research Findings: Demo\<newline>\<newline>*Generated by Research Agent (Qwen 3-32B) on: 2025-01-01 12:00:00*\<newline>\<newline>r'')"
proof -
  have z: "zip_research_findings_md still_clock (lit ''Demo'') (lit ''r'') =
      lit ''# Research Findings: Demo\<newline>\<newline>*Generated: 2025-01-01 12:00:00*\<newline>\<newline>r''"
    by (simp add: zip_research_findings_md_def still_clock_def lit_def)
  have k: "research_findings_md still_clock (lit ''Demo'') (lit ''r'') =
      lit ''# Research Findings: Demo\<newline>\<newline>*Generated by Research Agent (Qwen 3-32B) on: 2025-01-01 12:00:00*\<newline>\<newline>r''"
    by (simp add: research_findings_md_def still_clock_def lit_def)
  show ?thesis
    by (simp add: create_download_zip_def kilo_save_content_to_files_def package_names_neq z k)
qed

text \<open>
  Claim C9, as the code has it. The archive of \<open>streamlit_app.py\<close> and the directory of
  \<open>researcherkilo.py\<close> both hold five files, with the same names but for the combined file
  (\<open>complete_content_package.md\<close> in the archive, \<open>complete_multi_agent_content.md\<close> in the
  directory). Each of the three numbered files carries the same payload, the research, the
  blog post or the social content, unchanged after a header that differs between the two.
\<close>

theorem archive_and_directory_share_payloads:
  "map fst (create_download_zip zclock topic r c x) =
     [lit ''01_research_findings.md'', lit ''02_technical_blog_post.md'',
      lit ''03_social_media_content.md'', lit ''complete_content_package.md'', lit ''README.md''] \<and>
   map fst (files (kilo_save_content_to_files ucd now topic r c x)) =
     [lit ''01_research_findings.md'', lit ''02_technical_blog_post.md'',
      lit ''03_social_media_content.md'', lit ''complete_multi_agent_content.md'', lit ''README.md''] \<and>
   map_of (create_download_zip zclock topic r c x) (lit ''01_research_findings.md'') =
     Some (zip_research_findings_md zclock topic [] @ r) \<and>
   map_of (files (kilo_save_content_to_files ucd now topic r c x)) (lit ''01_research_findings.md'') =
     Some (research_findings_md now topic [] @ r) \<and>
   map_of (create_download_zip zclock topic r c x) (lit ''02_technical_blog_post.md'') =
     Some (zip_technical_blog_post_md zclock topic [] @ c) \<and>
   map_of (files (kilo_save_content_to_files ucd now topic r c x)) (lit ''02_technical_blog_post.md'') =
     Some (kilo_technical_blog_post_md now topic [] @ c) \<and>
   map_of (create_download_zip zclock topic r c x) (lit ''03_social_media_content.md'') =
     Some (zip_social_media_content_md zclock topic [] @ x) \<and>
   map_of (files (kilo_save_content_to_files ucd now topic r c x)) (lit ''03_social_media_content.md'') =
     Some (social_media_content_md now topic [] @ x)"
  using payload_files_split(1)[of zclock topic r] payload_files_split(2)[of zclock topic c]
    payload_files_split(3)[of zclock topic x] payload_files_split(4)[of now topic r]
    payload_files_split(5)[of now topic c] payload_files_split(6)[of now topic x]
  by (simp add: create_download_zip_def kilo_save_content_to_files_def package_names_neq)

section \<open>Edge cases of the slug\<close>

lemma slug_char_ascii: "slug_char ucd 97" "slug_char ucd 32"
  by (simp_all add: slug_char_def isalnum_def ascii_alnum_def)

lemma safe_topic_trailing_space:
  "safe_topic ucd (replicate 49 97 @ [32] @ replicate 10 97) = replicate 49 97 @ [32]"
proof -
  have f: "filter (slug_char ucd) (replicate 49 97 @ [32] @ replicate 10 97) =
      replicate 49 97 @ [32] @ replicate 10 97"
    by (simp add: slug_char_ascii)
  have r: "rstrip (replicate 49 97 @ [32] @ replicate 10 97) = replicate 49 97 @ [32] @ replicate 10 97"
    by (rule rstrip_id) (simp_all add: isspace_def)
  show ?thesis
    unfolding safe_topic_def f r by (simp add: str_slice_prefix[of _ 50, simplified])
qed

lemma safe_topic_empty:
  assumes "\<forall>c \<in> set topic. \<not> slug_char ucd c"
  shows "safe_topic ucd topic = []"
proof -
  from assms have "filter (slug_char ucd) topic = []"
    by (simp add: filter_empty_conv)
  then show ?thesis
    by (simp add: safe_topic_def rstrip_def str_slice_def)
qed

text \<open>
  Claim C10. Trailing whitespace is removed before the cut to 50 characters, so a slug can
  end with a space: the topic of 49 letters, a space and 10 letters keeps all its 60
  characters through the filter and gives the slug of 49 letters and a space. A topic
  with no alphanumeric character, space, hyphen or underscore gives the empty slug, and
  the name of the output directory is then an underscore followed by the time stamp.
\<close>

theorem safe_topic_edge_cases:
  "length (filter (slug_char ucd) (replicate 49 97 @ [32] @ replicate 10 97)) = 60 \<and>
   safe_topic ucd (replicate 49 97 @ [32] @ replicate 10 97) = replicate 49 97 @ [32] \<and>
   last (safe_topic ucd (replicate 49 97 @ [32] @ replicate 10 97)) = 32 \<and>
   ((\<forall>c \<in> set topic. \<not> (isalnum ucd c \<or> c = 32 \<or> c = 45 \<or> c = 95)) \<longrightarrow>
      safe_topic ucd topic = [] \<and>
      output_dir (qwen_save_content_to_files ucd now topic s) =
        lit ''technical_content/'' @ lit ''_'' @ now 0 \<and>
      output_dir (main_save_content_to_files ucd now topic s images) =
        lit ''outputs/'' @ lit ''_'' @ now 0 \<and>
      output_dir (kilo_save_content_to_files ucd now topic r c x) =
        lit ''multi_agent_content/'' @ lit ''_'' @ now 0)"
proof -
  have "length (filter (slug_char ucd) (replicate 49 97 @ [32] @ replicate 10 97)) = 60"
    by (simp add: slug_char_ascii)
  moreover have "last (safe_topic ucd (replicate 49 97 @ [32] @ replicate 10 97)) = 32"
    unfolding safe_topic_trailing_space by simp
  moreover have "safe_topic ucd topic = []"
    if "\<forall>c \<in> set topic. \<not> (isalnum ucd c \<or> c = 32 \<or> c = 45 \<or> c = 95)"
    using that by (intro safe_topic_empty) (simp add: slug_char_def)
  ultimately show ?thesis
    using safe_topic_trailing_space[of ucd]
    by (simp add: qwen_save_content_to_files_def main_save_content_to_files_def
        kilo_save_content_to_files_def)
qed

theorem safe_topic_edge_cases_witness:
  "set (lit ''?!:'') = {63, 33, 58} \<and>
   \<not> (isalnum ascii_only 63 \<or> (63::nat) = 32 \<or> (63::nat) = 45 \<or> (63::nat) = 95) \<and>
   \<not> (isalnum ascii_only 33 \<or> (33::nat) = 32 \<or> (33::nat) = 45 \<or> (33::nat) = 95) \<and>
   \<not> (isalnum ascii_only 58 \<or> (58::nat) = 32 \<or> (58::nat) = 45 \<or> (58::nat) = 95) \<and>
   safe_topic ascii_only (lit ''?!:'') = [] \<and>
   output_dir (qwen_save_content_to_files ascii_only still_clock (lit ''?!:'') []) =
     lit ''technical_content/'' @ lit ''_'' @ still_clock 0"
proof -
  have s: "set (lit ''?!:'') = {63, 33, 58}"
    by (simp add: lit_def)
  have n: "\<not> (isalnum ascii_only 63 \<or> (63::nat) = 32 \<or> (63::nat) = 45 \<or> (63::nat) = 95)"
    "\<not> (isalnum ascii_only 33 \<or> (33::nat) = 32 \<or> (33::nat) = 45 \<or> (33::nat) = 95)"
    "\<not> (isalnum ascii_only 58 \<or> (58::nat) = 32 \<or> (58::nat) = 45 \<or> (58::nat) = 95)"
    by (simp_all add: isalnum_def ascii_alnum_def)
  then have "\<forall>c \<in> set (lit ''?!:''). \<not> (isalnum ascii_only c \<or> c = 32 \<or> c = 45 \<or> c = 95)"
    unfolding s by simp
  with safe_topic_edge_cases[of ascii_only "lit ''?!:''" still_clock "[]"] s n
  show ?thesis by blast
qed

end
